theory Spec2Isabelle
  imports Complex_Main "HOL-Library.Multiset"
begin

section \<open>Strings as the search engine uses them\<close>

text \<open>
  The engine compares text with \<^verbatim>\<open>toLowerCase()\<close> and \<^verbatim>\<open>includes()\<close>.
  A string is a list of 8-bit characters here; \<open>toLowerCase\<close> maps the ASCII capitals to
  their small letters and leaves every other character alone (the Unicode case tables of the
  JavaScript runtime are outside this development).
\<close>

definition lower_char :: "char \<Rightarrow> char" where
  "lower_char c =
     (case map_of (zip ''ABCDEFGHIJKLMNOPQRSTUVWXYZ'' ''abcdefghijklmnopqrstuvwxyz'') c of
        None \<Rightarrow> c
      | Some d \<Rightarrow> d)"

definition toLowerCase :: "string \<Rightarrow> string" where
  "toLowerCase s = map lower_char s"

fun startsWith :: "string \<Rightarrow> string \<Rightarrow> bool" where
  "startsWith s [] = True"
| "startsWith [] (q # qs) = False"
| "startsWith (c # cs) (q # qs) = (c = q \<and> startsWith cs qs)"

text \<open>\<open>str_includes s q\<close> is \<^verbatim>\<open>s.includes(q)\<close>: \<open>q\<close> occurs in \<open>s\<close> as a contiguous substring.\<close>

fun str_includes :: "string \<Rightarrow> string \<Rightarrow> bool" where
  "str_includes [] q = (q = [])"
| "str_includes (c # cs) q = (startsWith (c # cs) q \<or> str_includes cs q)"


section \<open>Listings\<close>

text \<open>
  A Post document, with the fields of \<^verbatim>\<open>IPost\<close> that the search engine reads. Nested
  paths are flattened: \<open>address_province\<close> is \<^verbatim>\<open>location.address.province\<close>,
  \<open>lng\<close> and \<open>lat\<close> are \<^verbatim>\<open>location.coordinates.coordinates[0]\<close> and \<^verbatim>\<open>[1]\<close>.
  JavaScript numbers are exact reals (rounding of IEEE doubles is not modelled: a score
  is what the code's sums give when no sum is rounded, which is the case whenever the
  popularity term is a whole number);
  \<open>viewCount\<close> is a natural number, as the schema (\<^verbatim>\<open>min: 0\<close>, only ever incremented)
  has it. \<^verbatim>\<open>tags\<close> and \<^verbatim>\<open>keywords\<close> (here \<open>post_keywords\<close>) are optional in \<^verbatim>\<open>IPost\<close>.
\<close>

record post =
  title :: string
  description :: string
  price :: real
  propertyType :: string
  listingType :: string
  area :: real
  address_street :: string
  address_district :: string
  address_province :: string
  lng :: real
  lat :: real
  houseDetails_bedrooms :: "real option"
  houseDetails_bathrooms :: "real option"
  landDetails_roadAccess :: "bool option"
  landDetails_waterSource :: "bool option"
  landDetails_utilities :: "string list"
  condition :: string
  status :: string
  featured :: bool
  urgent :: bool
  authorId :: string
  tags :: "string list option"
  post_keywords :: "string list option"
  viewCount :: nat
  createdAt :: real


section \<open>Relevance Scorer\<close>

text \<open>
  \<^verbatim>\<open>PostQueryHelper.calculateRelevanceScore(post, searchText)\<close>. The \<^verbatim>\<open>forEach\<close>
  loops over tags and keywords are folds over the running score; a guard
  \<^verbatim>\<open>post.title && ...\<close> is the test that the string is not empty;
  \<^verbatim>\<open>if (c) score += w\<close> is \<open>add_if c w\<close>.
\<close>

definition add_if :: "bool \<Rightarrow> real \<Rightarrow> real \<Rightarrow> real" where
  "add_if c w score = (if c then score + w else score)"

definition calculateRelevanceScore :: "post \<Rightarrow> string \<Rightarrow> real" where
  "calculateRelevanceScore p searchText =
     (if searchText = [] then 0
      else
        let searchLower = toLowerCase searchText;
            score = 0;
            score = (if title p \<noteq> [] \<and> str_includes (toLowerCase (title p)) searchLower
                     then add_if (toLowerCase (title p) = searchLower) 5 (score + 10)
                     else score);
            score = (case tags p of
                       None \<Rightarrow> score
                     | Some ts \<Rightarrow>
                         fold (\<lambda>tag. add_if (str_includes (toLowerCase tag) searchLower) 8)
                           ts score);
            score = (case post_keywords p of
                       None \<Rightarrow> score
                     | Some ks \<Rightarrow>
                         fold (\<lambda>keyword. add_if (str_includes (toLowerCase keyword) searchLower) 7)
                           ks score);
            score = add_if (str_includes (toLowerCase (address_province p)) searchLower) 6 score;
            score = add_if (str_includes (toLowerCase (address_district p)) searchLower) 5 score;
            score = add_if (str_includes (toLowerCase (address_street p)) searchLower) 4 score;
            score = add_if (description p \<noteq> []
                            \<and> str_includes (toLowerCase (description p)) searchLower) 3 score;
            score = add_if (featured p) 2 score;
            score = add_if (urgent p) 1 score;
            score = add_if (viewCount p \<noteq> 0) (min (real (viewCount p) / 100) 3) score
        in score)"

text \<open>
  The scorer as the design document words it: a case-insensitive substring test per field
  and one weight per signal, added up.
\<close>

definition contains_ci :: "string \<Rightarrow> string \<Rightarrow> bool" where
  "contains_ci field q = str_includes (toLowerCase field) (toLowerCase q)"

definition equals_ci :: "string \<Rightarrow> string \<Rightarrow> bool" where
  "equals_ci field q = (toLowerCase field = toLowerCase q)"

definition matching :: "string list option \<Rightarrow> string \<Rightarrow> nat" where
  "matching xs q = (case xs of None \<Rightarrow> 0 | Some ys \<Rightarrow> length (filter (\<lambda>y. contains_ci y q) ys))"

definition popularity :: "post \<Rightarrow> real" where
  "popularity p = min (real (viewCount p) / 100) 3"

definition weighted_sum :: "post \<Rightarrow> string \<Rightarrow> real" where
  "weighted_sum p q =
     (if contains_ci (title p) q then 10 else 0)
   + (if equals_ci (title p) q then 5 else 0)
   + 8 * real (matching (tags p) q)
   + 7 * real (matching (post_keywords p) q)
   + (if contains_ci (address_province p) q then 6 else 0)
   + (if contains_ci (address_district p) q then 5 else 0)
   + (if contains_ci (address_street p) q then 4 else 0)
   + (if contains_ci (description p) q then 3 else 0)
   + (if featured p then 2 else 0)
   + (if urgent p then 1 else 0)
   + popularity p"



section \<open>Geospatial Locator\<close>

text \<open>
  \<^verbatim>\<open>PostQueryHelper.calculateDistance(lat1, lon1, lat2, lon2)\<close> over exact reals.
  \<open>Math_atan2 y x\<close> is the two-argument arctangent, \<open>Math_round\<close> rounds to the nearest
  integer with halves going up, as \<^verbatim>\<open>Math.round\<close> does. The program computes in
  doubles: where rounding pushes \<open>a\<close> above 1 (nearly antipodal points) it returns
  \<^verbatim>\<open>NaN\<close>, which this definition does not show. The statements on the engine below use
  whether an entry carries a distance, never its value.
\<close>

definition deg2rad :: "real \<Rightarrow> real" where
  "deg2rad deg = deg * (pi / 180)"

definition Math_atan2 :: "real \<Rightarrow> real \<Rightarrow> real" where
  "Math_atan2 y x =
     (if 0 < x then arctan (y / x)
      else if x < 0 then (if 0 \<le> y then arctan (y / x) + pi else arctan (y / x) - pi)
      else if 0 < y then pi / 2
      else if y < 0 then - (pi / 2)
      else 0)"

definition Math_round :: "real \<Rightarrow> int" where
  "Math_round x = \<lfloor>x + 1 / 2\<rfloor>"

definition calculateDistance :: "real \<Rightarrow> real \<Rightarrow> real \<Rightarrow> real \<Rightarrow> int" where
  "calculateDistance lat1 lon1 lat2 lon2 =
     (let R = 6371;
          dLat = deg2rad (lat2 - lat1);
          dLon = deg2rad (lon2 - lon1);
          a = sin (dLat / 2) * sin (dLat / 2)
              + cos (deg2rad lat1) * cos (deg2rad lat2) * sin (dLon / 2) * sin (dLon / 2);
          c = 2 * Math_atan2 (sqrt a) (sqrt (1 - a));
          distance = R * c * 1000
      in Math_round distance)"

text \<open>
  \<^verbatim>\<open>CoordinateUtils.calculateDistance(lat1, lng1, lat2, lng2)\<close>, the utility with the
  same formula that returns kilometres and does not round. Nothing in the engine calls it.
\<close>

definition toRadians :: "real \<Rightarrow> real" where
  "toRadians degrees = degrees * (pi / 180)"

definition CoordinateUtils_calculateDistance :: "real \<Rightarrow> real \<Rightarrow> real \<Rightarrow> real \<Rightarrow> real" where
  "CoordinateUtils_calculateDistance lat1 lng1 lat2 lng2 =
     (let R = 6371;
          dLat = toRadians (lat2 - lat1);
          dLng = toRadians (lng2 - lng1);
          a = sin (dLat / 2) * sin (dLat / 2)
              + cos (toRadians lat1) * cos (toRadians lat2) * sin (dLng / 2) * sin (dLng / 2);
          c = 2 * Math_atan2 (sqrt a) (sqrt (1 - a))
      in R * c)"

text \<open>
  The haversine distance as the design document writes it: the quantity \<open>a\<close>, the
  distance \<open>d = 2 R atan2(\<surd>a, \<surd>(1 - a))\<close> in kilometres with \<open>R = 6371\<close>, and the result
  in metres, rounded to the nearest integer.
\<close>

definition haversine_a :: "real \<Rightarrow> real \<Rightarrow> real \<Rightarrow> real \<Rightarrow> real" where
  "haversine_a lat1 lon1 lat2 lon2 =
     (sin (deg2rad (lat2 - lat1) / 2))\<^sup>2
     + cos (deg2rad lat1) * cos (deg2rad lat2) * (sin (deg2rad (lon2 - lon1) / 2))\<^sup>2"

definition haversine_km :: "real \<Rightarrow> real \<Rightarrow> real \<Rightarrow> real \<Rightarrow> real" where
  "haversine_km lat1 lon1 lat2 lon2 =
     2 * 6371 * Math_atan2 (sqrt (haversine_a lat1 lon1 lat2 lon2))
                           (sqrt (1 - haversine_a lat1 lon1 lat2 lon2))"

definition haversine_metres :: "real \<Rightarrow> real \<Rightarrow> real \<Rightarrow> real \<Rightarrow> int" where
  "haversine_metres lat1 lon1 lat2 lon2 = round (1000 * haversine_km lat1 lon1 lat2 lon2)"


section \<open>The store\<close>

text \<open>
  The persistence layer is not part of the repository: the engine hands it a query object
  and receives documents. A query object is an association list from keys to conditions;
  assigning a key that is already there replaces its value, which is what both
  \<^verbatim>\<open>Object.assign\<close> and an object spread \<^verbatim>\<open>{ a: 1, ...filter }\<close> do.
\<close>

datatype jsval =
  Str string | Num real | NaN | Bool bool | StrList "string list" | GeoPoint real real

datatype cond =
    Eq jsval
  | Regex string
  | Range "real option" "real option"
  | In "string list"
  | InRegex "string list"
  | Near real real real

datatype qvalue = Cond cond | Or "(string \<times> cond) list"

type_synonym query = "(string \<times> qvalue) list"

fun set_key :: "string \<Rightarrow> qvalue \<Rightarrow> query \<Rightarrow> query" where
  "set_key k v [] = [(k, v)]"
| "set_key k v ((k', v') # q) = (if k' = k then (k, v) # q else (k', v') # set_key k v q)"

definition assign :: "query \<Rightarrow> query \<Rightarrow> query" where
  "assign target source = fold (\<lambda>(k, v) q. set_key k v q) source target"

text \<open>The document paths a query can name, and the value a document has there.\<close>

definition optional :: "string \<Rightarrow> jsval option \<Rightarrow> (string \<times> jsval) list" where
  "optional k v = (case v of None \<Rightarrow> [] | Some w \<Rightarrow> [(k, w)])"

definition doc_fields :: "post \<Rightarrow> (string \<times> jsval) list" where
  "doc_fields p =
     [(''title'', Str (title p)),
      (''description'', Str (description p)),
      (''price'', Num (price p)),
      (''propertyType'', Str (propertyType p)),
      (''listingType'', Str (listingType p)),
      (''area'', Num (area p)),
      (''location.address.street'', Str (address_street p)),
      (''location.address.district'', Str (address_district p)),
      (''location.address.province'', Str (address_province p)),
      (''location.coordinates'', GeoPoint (lng p) (lat p)),
      (''landDetails.utilities'', StrList (landDetails_utilities p)),
      (''condition'', Str (condition p)),
      (''status'', Str (status p)),
      (''featured'', Bool (featured p)),
      (''urgent'', Bool (urgent p)),
      (''authorId'', Str (authorId p)),
      (''viewCount'', Num (real (viewCount p))),
      (''createdAt'', Num (createdAt p))]
     @ optional ''houseDetails.bedrooms'' (map_option Num (houseDetails_bedrooms p))
     @ optional ''houseDetails.bathrooms'' (map_option Num (houseDetails_bathrooms p))
     @ optional ''landDetails.roadAccess'' (map_option Bool (landDetails_roadAccess p))
     @ optional ''landDetails.waterSource'' (map_option Bool (landDetails_waterSource p))
     @ optional ''tags'' (map_option StrList (tags p))
     @ optional ''keywords'' (map_option StrList (post_keywords p))"

definition field_of :: "string \<Rightarrow> post \<Rightarrow> jsval option" where
  "field_of k p = map_of (doc_fields p) k"

text \<open>
  What the engine assumes of the store, as parameters: its documents in their natural
  order, which queries it accepts (it may reject a malformed pattern or point), its
  case-insensitive pattern match, and its distance in metres between two points given as
  longitude and latitude. \<open>regexp_ok\<close> says whether \<^verbatim>\<open>new RegExp(text, "i")\<close> succeeds.
\<close>

record store =
  docs :: "post list"
  accepts :: "query \<Rightarrow> bool"
  regex_test :: "string \<Rightarrow> string \<Rightarrow> bool"
  geo_dist :: "real \<Rightarrow> real \<Rightarrow> real \<Rightarrow> real \<Rightarrow> real"
  regexp_ok :: "string \<Rightarrow> bool"

datatype failure = SyntaxError | StoreError

fun cond_holds :: "store \<Rightarrow> cond \<Rightarrow> jsval option \<Rightarrow> bool" where
  "cond_holds st (Eq v) fv =
     (case fv of
        None \<Rightarrow> False
      | Some (StrList xs) \<Rightarrow> (case v of Str s \<Rightarrow> List.member xs s | _ \<Rightarrow> v = StrList xs)
      | Some w \<Rightarrow> w = v)"
| "cond_holds st (Regex r) fv =
     (case fv of
        Some (Str s) \<Rightarrow> regex_test st r s
      | Some (StrList xs) \<Rightarrow> list_ex (regex_test st r) xs
      | _ \<Rightarrow> False)"
| "cond_holds st (Range lo hi) fv =
     (case fv of
        Some (Num x) \<Rightarrow>
          (case lo of None \<Rightarrow> True | Some l \<Rightarrow> l \<le> x) \<and> (case hi of None \<Rightarrow> True | Some h \<Rightarrow> x \<le> h)
      | _ \<Rightarrow> False)"
| "cond_holds st (In vs) fv =
     (case fv of
        Some (Str s) \<Rightarrow> List.member vs s
      | Some (StrList xs) \<Rightarrow> list_ex (List.member vs) xs
      | _ \<Rightarrow> False)"
| "cond_holds st (InRegex rs) fv =
     (case fv of
        Some (Str s) \<Rightarrow> list_ex (\<lambda>r. regex_test st r s) rs
      | Some (StrList xs) \<Rightarrow> list_ex (\<lambda>r. list_ex (regex_test st r) xs) rs
      | _ \<Rightarrow> False)"
| "cond_holds st (Near qlng qlat maxDistance) fv =
     (case fv of
        Some (GeoPoint plng plat) \<Rightarrow> geo_dist st qlng qlat plng plat \<le> maxDistance
      | _ \<Rightarrow> False)"

fun clause_holds :: "store \<Rightarrow> post \<Rightarrow> string \<times> qvalue \<Rightarrow> bool" where
  "clause_holds st p (k, Cond c) = cond_holds st c (field_of k p)"
| "clause_holds st p (k, Or alternatives) =
     list_ex (\<lambda>(f, c). cond_holds st c (field_of f p)) alternatives"

definition matches :: "store \<Rightarrow> query \<Rightarrow> post \<Rightarrow> bool" where
  "matches st q p = list_all (clause_holds st p) q"

text \<open>
  Ordering: an explicit sort object orders by one numeric field, ascending (\<open>1\<close>) or
  descending (\<open>-1\<close>), ties in natural order; the empty sort object leaves the order to the
  query, which is nearest first when the query has a proximity condition.
\<close>

type_synonym sort_query = "(string \<times> int) option"

definition sort_value :: "string \<Rightarrow> post \<Rightarrow> real" where
  "sort_value k p = (case field_of k p of Some (Num x) \<Rightarrow> x | _ \<Rightarrow> 0)"

definition near_of :: "query \<Rightarrow> (real \<times> real) option" where
  "near_of q =
     (case map_of q ''location.coordinates'' of
        Some (Cond (Near qlng qlat d)) \<Rightarrow> Some (qlng, qlat)
      | _ \<Rightarrow> None)"

definition store_sort :: "store \<Rightarrow> query \<Rightarrow> sort_query \<Rightarrow> post list \<Rightarrow> post list" where
  "store_sort st q sortQuery ms =
     (case sortQuery of
        Some (k, dir) \<Rightarrow> sort_key (\<lambda>p. if dir < 0 then - sort_value k p else sort_value k p) ms
      | None \<Rightarrow>
          (case near_of q of
             Some (qlng, qlat) \<Rightarrow> sort_key (\<lambda>p. geo_dist st qlng qlat (lng p) (lat p)) ms
           | None \<Rightarrow> ms))"

definition apply_limit :: "int \<Rightarrow> 'a list \<Rightarrow> 'a list" where
  "apply_limit n xs = (if n = 0 then xs else take (nat \<bar>n\<bar>) xs)"

text \<open>\<^verbatim>\<open>Post.find(query).sort(sortQuery).skip(skip).limit(limit)\<close> and \<^verbatim>\<open>Post.countDocuments(query)\<close>.\<close>

definition store_find ::
  "store \<Rightarrow> query \<Rightarrow> sort_query \<Rightarrow> int \<Rightarrow> int \<Rightarrow> failure + post list" where
  "store_find st q sortQuery skip n =
     (if \<not> accepts st q \<or> skip < 0 then Inl StoreError
      else Inr (apply_limit n (drop (nat skip) (store_sort st q sortQuery (filter (matches st q) (docs st))))))"

definition countDocuments :: "store \<Rightarrow> query \<Rightarrow> failure + nat" where
  "countDocuments st q =
     (if \<not> accepts st q then Inl StoreError
      else Inr (length (filter (matches st q) (docs st))))"



section \<open>Arrays\<close>

text \<open>
  \<^verbatim>\<open>Array.prototype.sort(compare)\<close> is a stable sort: \<open>insert_by\<close> puts an element in
  front of the first element it does not have to follow, and \<open>Array_sort\<close> inserts from the
  right, so that elements that compare equal keep their order.
  \<^verbatim>\<open>Array.prototype.slice(start, end)\<close> counts a negative index from the end and clamps
  both indices to the array.
\<close>

fun insert_by :: "('a \<Rightarrow> 'a \<Rightarrow> real) \<Rightarrow> 'a \<Rightarrow> 'a list \<Rightarrow> 'a list" where
  "insert_by compare x [] = [x]"
| "insert_by compare x (y # ys) =
     (if compare x y \<le> 0 then x # y # ys else y # insert_by compare x ys)"

definition Array_sort :: "('a \<Rightarrow> 'a \<Rightarrow> real) \<Rightarrow> 'a list \<Rightarrow> 'a list" where
  "Array_sort compare xs = foldr (insert_by compare) xs []"

definition slice_index :: "nat \<Rightarrow> int \<Rightarrow> nat" where
  "slice_index len i = (if i < 0 then nat (max (int len + i) 0) else min (nat i) len)"

definition Array_slice :: "int \<Rightarrow> int \<Rightarrow> 'a list \<Rightarrow> 'a list" where
  "Array_slice start end xs =
     (let from = slice_index (length xs) start;
          to = slice_index (length xs) end
      in take (to - from) (drop from xs))"


section \<open>Search requests and results\<close>

text \<open>
  The parameter object of \<^verbatim>\<open>advancedSearch\<close>; an absent (\<^verbatim>\<open>undefined\<close>) property is
  \<open>None\<close>. A number that failed to parse (\<^verbatim>\<open>NaN\<close>) is \<open>None\<close> as well: both are falsy
  in every test the engine makes on them.
\<close>

record search_params =
  p_searchText :: "string option"
  p_latitude :: "real option"
  p_longitude :: "real option"
  p_radius :: "real option"
  p_propertyType :: "string option"
  p_listingType :: "string option"
  p_minPrice :: "real option"
  p_maxPrice :: "real option"
  p_minArea :: "real option"
  p_maxArea :: "real option"
  p_province :: "string option"
  p_district :: "string option"
  p_bedrooms :: "real option"
  p_bathrooms :: "real option"
  p_condition :: "string option"
  p_featured :: "bool option"
  p_urgent :: "bool option"
  p_sortBy :: "string option"
  p_page :: "int option"
  p_limit :: "int option"
  p_roadAccess :: "bool option"
  p_waterSource :: "bool option"
  p_electricity :: "bool option"

text \<open>JavaScript truthiness of an optional string and of an optional number.\<close>

definition truthy_str :: "string option \<Rightarrow> bool" where
  "truthy_str x = (case x of None \<Rightarrow> False | Some s \<Rightarrow> s \<noteq> [])"

definition truthy_num :: "real option \<Rightarrow> bool" where
  "truthy_num x = (case x of None \<Rightarrow> False | Some v \<Rightarrow> v \<noteq> 0)"

definition or_default :: "'a option \<Rightarrow> 'a \<Rightarrow> 'a" where
  "or_default x d = (case x of None \<Rightarrow> d | Some v \<Rightarrow> v)"

text \<open>
  A result entry: the document, with \<^verbatim>\<open>relevanceScore\<close> and \<^verbatim>\<open>distance\<close> when the
  engine attaches them. (The engine also replaces \<^verbatim>\<open>authorId\<close> by the author's display
  data or \<^verbatim>\<open>null\<close>; that step touches no other field and neither the order nor the
  number of entries, and is left out.)
\<close>

record hit =
  hit_post :: post
  relevanceScore :: "real option"
  distance :: "int option"

record pagination =
  pg_current :: int
  pg_total :: int
  pg_count :: nat
  pg_totalCount :: nat
  pg_limit :: int

record search_result =
  r_posts :: "hit list"
  r_pagination :: pagination
  r_hasGeospatialFilter :: bool
  r_searchCenter :: "(real \<times> real \<times> real) option"


section \<open>Predicate Builder\<close>

definition buildRangeQuery :: "string \<Rightarrow> real option \<Rightarrow> real option \<Rightarrow> query" where
  "buildRangeQuery field mn mx =
     (if \<not> truthy_num mn \<and> \<not> truthy_num mx then []
      else [(field, Cond (Range (if truthy_num mn then mn else None)
                                (if truthy_num mx then mx else None)))])"

definition buildTextSearchQuery :: "string \<Rightarrow> query" where
  "buildTextSearchQuery searchText =
     (if searchText = [] then []
      else [(''$or'', Or [(''title'', Regex searchText),
                          (''description'', Regex searchText),
                          (''location.address.street'', Regex searchText),
                          (''location.address.district'', Regex searchText),
                          (''location.address.province'', Regex searchText),
                          (''tags'', InRegex [searchText]),
                          (''keywords'', InRegex [searchText])])])"

definition approved_only :: query where
  "approved_only = [(''status'', Cond (Eq (Str ''approved'')))]"

text \<open>The Thai word for electricity, as its UTF-8 bytes.\<close>

definition electricity_thai :: string where
  "electricity_thai =
     [CHR 0xE0, CHR 0xB9, CHR 0x84, CHR 0xE0, CHR 0xB8, CHR 0x9F, CHR 0xE0, CHR 0xB8, CHR 0x9F,
      CHR 0xE0, CHR 0xB9, CHR 0x89, CHR 0xE0, CHR 0xB8, CHR 0xB2]"

text \<open>
  The query object that \<^verbatim>\<open>advancedSearch\<close> builds from its parameters. A statement
  \<^verbatim>\<open>if (c) query[k] = v\<close> is \<open>provided c (set_key k v)\<close>; for a flag, the test is
  \<^verbatim>\<open>!== undefined\<close>.
\<close>

definition provided :: "bool \<Rightarrow> (query \<Rightarrow> query) \<Rightarrow> query \<Rightarrow> query" where
  "provided c f q = (if c then f q else q)"

definition set_defined :: "string \<Rightarrow> bool option \<Rightarrow> query \<Rightarrow> query" where
  "set_defined k v q = (case v of None \<Rightarrow> q | Some b \<Rightarrow> set_key k (Cond (Eq (Bool b))) q)"

definition build_query :: "search_params \<Rightarrow> query" where
  "build_query ps =
     (let radius = or_default (p_radius ps) 5000;
          query = approved_only;
          query = provided (truthy_str (p_searchText ps))
                    (\<lambda>q. assign q (buildTextSearchQuery (or_default (p_searchText ps) []))) query;
          query = provided (truthy_num (p_latitude ps) \<and> truthy_num (p_longitude ps))
                    (set_key ''location.coordinates''
                       (Cond (Near (or_default (p_longitude ps) 0)
                                   (or_default (p_latitude ps) 0) radius))) query;
          query = provided (truthy_str (p_propertyType ps))
                    (set_key ''propertyType''
                       (Cond (Eq (Str (or_default (p_propertyType ps) []))))) query;
          query = provided (truthy_str (p_listingType ps))
                    (set_key ''listingType''
                       (Cond (Eq (Str (or_default (p_listingType ps) []))))) query;
          query = provided (truthy_str (p_condition ps))
                    (set_key ''condition''
                       (Cond (Eq (Str (or_default (p_condition ps) []))))) query;
          query = set_defined ''featured'' (p_featured ps) query;
          query = set_defined ''urgent'' (p_urgent ps) query;
          query = provided (truthy_str (p_province ps))
                    (set_key ''location.address.province''
                       (Cond (Regex (or_default (p_province ps) [])))) query;
          query = provided (truthy_str (p_district ps))
                    (set_key ''location.address.district''
                       (Cond (Regex (or_default (p_district ps) [])))) query;
          query = assign query (buildRangeQuery ''price'' (p_minPrice ps) (p_maxPrice ps));
          query = assign query (buildRangeQuery ''area'' (p_minArea ps) (p_maxArea ps));
          query = provided (truthy_num (p_bedrooms ps))
                    (set_key ''houseDetails.bedrooms''
                       (Cond (Eq (Num (or_default (p_bedrooms ps) 0))))) query;
          query = provided (truthy_num (p_bathrooms ps))
                    (set_key ''houseDetails.bathrooms''
                       (Cond (Eq (Num (or_default (p_bathrooms ps) 0))))) query;
          query = set_defined ''landDetails.roadAccess'' (p_roadAccess ps) query;
          query = set_defined ''landDetails.waterSource'' (p_waterSource ps) query;
          query = provided (p_electricity ps = Some True)
                    (set_key ''landDetails.utilities''
                       (Cond (In [''electricity'', ''Electricity'', electricity_thai]))) query
      in query)"

text \<open>The \<^verbatim>\<open>switch (sortBy)\<close>: an unknown key keeps the initial newest-first order.\<close>

definition sort_query_of :: "string \<Rightarrow> sort_query" where
  "sort_query_of sortBy =
     (if sortBy = ''newest'' then Some (''createdAt'', - 1)
      else if sortBy = ''oldest'' then Some (''createdAt'', 1)
      else if sortBy = ''price_asc'' then Some (''price'', 1)
      else if sortBy = ''price_desc'' then Some (''price'', - 1)
      else if sortBy = ''area_asc'' then Some (''area'', 1)
      else if sortBy = ''area_desc'' then Some (''area'', - 1)
      else if sortBy = ''distance'' then None
      else Some (''createdAt'', - 1))"


section \<open>Ranking and Pagination Orchestrator\<close>

definition plain_hit :: "post \<Rightarrow> hit" where
  "plain_hit p = \<lparr>hit_post = p, relevanceScore = None, distance = None\<rparr>"

definition score_of :: "hit \<Rightarrow> real" where
  "score_of h = or_default (relevanceScore h) 0"

definition with_score :: "string \<Rightarrow> hit \<Rightarrow> hit" where
  "with_score searchText h =
     h\<lparr>relevanceScore := Some (calculateRelevanceScore (hit_post h) searchText)\<rparr>"

definition with_distance :: "real \<Rightarrow> real \<Rightarrow> hit \<Rightarrow> hit" where
  "with_distance latitude longitude h =
     h\<lparr>distance := Some (calculateDistance latitude longitude
                            (lat (hit_post h)) (lng (hit_post h)))\<rparr>"

definition Math_ceil_div :: "nat \<Rightarrow> int \<Rightarrow> int" where
  "Math_ceil_div m n = \<lceil>real m / real_of_int n\<rceil>"

definition advancedSearch :: "store \<Rightarrow> search_params \<Rightarrow> failure + search_result" where
  "advancedSearch st ps =
     (let searchText = p_searchText ps;
          latitude = p_latitude ps;
          longitude = p_longitude ps;
          radius = or_default (p_radius ps) 5000;
          sortBy = or_default (p_sortBy ps) ''newest'';
          page = or_default (p_page ps) 1;
          limit = or_default (p_limit ps) 10;
          geo = (truthy_num latitude \<and> truthy_num longitude);
          query = build_query ps;
          sortQuery = sort_query_of sortBy;
          skip = (page - 1) * limit;
          useRelevanceSort = (truthy_str searchText \<and> sortBy \<noteq> ''distance'');
          fetchLimit = (if useRelevanceSort then limit * 5 else limit);
          fetchSkip = (if useRelevanceSort then 0 else skip)
      in if truthy_str searchText \<and> \<not> regexp_ok st (or_default searchText []) then Inl SyntaxError
         else
           case store_find st query sortQuery fetchSkip fetchLimit of
             Inl e \<Rightarrow> Inl e
           | Inr posts \<Rightarrow>
               (case countDocuments st query of
                  Inl e \<Rightarrow> Inl e
                | Inr totalCount \<Rightarrow>
                    (let processedPosts = map plain_hit posts;
                         processedPosts =
                           (if truthy_str searchText
                            then (let scored = map (with_score (or_default searchText [])) processedPosts
                                  in if useRelevanceSort
                                     then Array_slice skip (skip + limit)
                                            (Array_sort (\<lambda>a b. score_of b - score_of a) scored)
                                     else scored)
                            else processedPosts);
                         postsWithDistance =
                           (if geo
                            then map (with_distance (or_default latitude 0) (or_default longitude 0))
                                   processedPosts
                            else processedPosts)
                     in Inr \<lparr>r_posts = postsWithDistance,
                             r_pagination =
                               \<lparr>pg_current = page,
                                pg_total = Math_ceil_div totalCount limit,
                                pg_count = length posts,
                                pg_totalCount = totalCount,
                                pg_limit = limit\<rparr>,
                             r_hasGeospatialFilter = geo,
                             r_searchCenter =
                               (if geo
                                then Some (or_default latitude 0, or_default longitude 0, radius)
                                else None)\<rparr>)))"

text \<open>
  \<^verbatim>\<open>findNearbyPosts\<close> and \<^verbatim>\<open>findWithAdvancedFilter\<close> take the caller's filter object and
  spread it into their query after the keys they set themselves.
\<close>

definition findNearbyPosts ::
  "store \<Rightarrow> real \<Rightarrow> real \<Rightarrow> real \<Rightarrow> query \<Rightarrow> int \<Rightarrow> int \<Rightarrow> failure + post list" where
  "findNearbyPosts st latitude longitude radiusInMeters filt skip n =
     (let query = assign [(''status'', Cond (Eq (Str ''approved''))),
                          (''location.coordinates'',
                             Cond (Near longitude latitude radiusInMeters))] filt
      in store_find st query None skip n)"

definition countNearbyPosts :: "store \<Rightarrow> real \<Rightarrow> real \<Rightarrow> real \<Rightarrow> query \<Rightarrow> failure + nat" where
  "countNearbyPosts st latitude longitude radiusInMeters filt =
     (let query = assign [(''status'', Cond (Eq (Str ''approved''))),
                          (''location.coordinates'',
                             Cond (Near longitude latitude radiusInMeters))] filt
      in countDocuments st query)"

definition findWithAdvancedFilter ::
  "store \<Rightarrow> query \<Rightarrow> sort_query \<Rightarrow> int \<Rightarrow> int \<Rightarrow> failure + (post list \<times> nat)" where
  "findWithAdvancedFilter st filt sortQuery skip n =
     (let query = assign [(''status'', Cond (Eq (Str ''approved'')))] filt
      in case store_find st query sortQuery skip n of
           Inl e \<Rightarrow> Inl e
         | Inr posts \<Rightarrow>
             (case countDocuments st query of
                Inl e \<Rightarrow> Inl e
              | Inr totalCount \<Rightarrow> Inr (posts, totalCount)))"



section \<open>The HTTP layer\<close>

text \<open>
  A request is its query-string parameters. \<open>parseInt\<close> and \<open>parseFloat\<close> read an
  optional sign and decimal digits (\<open>parseFloat\<close> also a fraction) after leading blanks and
  ignore what follows; \<open>None\<close> is \<^verbatim>\<open>NaN\<close>. Exponents and the other notations of the
  JavaScript functions are not read.
\<close>

type_synonym request = "(string \<times> string) list"

definition param :: "request \<Rightarrow> string \<Rightarrow> string option" where
  "param req k = map_of req k"

definition digit_value :: "char \<Rightarrow> nat option" where
  "digit_value c = map_of (zip ''0123456789'' [0, 1, 2, 3, 4, 5, 6, 7, 8, 9]) c"

definition is_digit :: "char \<Rightarrow> bool" where
  "is_digit c = (digit_value c \<noteq> None)"

definition digits_to_nat :: "string \<Rightarrow> nat" where
  "digits_to_nat ds = foldl (\<lambda>n c. 10 * n + or_default (digit_value c) 0) 0 ds"

definition unsigned_float :: "string \<Rightarrow> real option" where
  "unsigned_float s =
     (let whole = takeWhile is_digit s;
          rest = dropWhile is_digit s;
          frac = (case rest of [] \<Rightarrow> [] | c # r \<Rightarrow> if c = CHR ''.'' then takeWhile is_digit r else [])
      in if whole = [] \<and> frac = [] then None
         else Some (real (digits_to_nat whole) + real (digits_to_nat frac) / 10 ^ length frac))"

definition signed :: "(string \<Rightarrow> 'a option) \<Rightarrow> ('a \<Rightarrow> 'a) \<Rightarrow> string \<Rightarrow> 'a option" where
  "signed read negate s =
     (case dropWhile (\<lambda>c. c = CHR '' '') s of
        [] \<Rightarrow> None
      | c # r \<Rightarrow>
          if c = CHR ''-'' then map_option negate (read r)
          else if c = CHR ''+'' then read r
          else read (c # r))"

definition parseFloat :: "string \<Rightarrow> real option" where
  "parseFloat s = signed unsigned_float uminus s"

definition unsigned_int :: "string \<Rightarrow> int option" where
  "unsigned_int s =
     (let whole = takeWhile is_digit s
      in if whole = [] then None else Some (int (digits_to_nat whole)))"

definition parseInt :: "string \<Rightarrow> int option" where
  "parseInt s = signed unsigned_int uminus s"

text \<open>\<^verbatim>\<open>parseInt(req.query.page as string) || d\<close>\<close>

definition int_param_or :: "request \<Rightarrow> string \<Rightarrow> int \<Rightarrow> int" where
  "int_param_or req k d =
     (case param req k of
        None \<Rightarrow> d
      | Some s \<Rightarrow> (case parseInt s of None \<Rightarrow> d | Some n \<Rightarrow> if n = 0 then d else n))"

definition text_param :: "request \<Rightarrow> string \<Rightarrow> string option" where
  "text_param req k = (if truthy_str (param req k) then param req k else None)"

definition float_param :: "request \<Rightarrow> string \<Rightarrow> real option" where
  "float_param req k = (if truthy_str (param req k) then parseFloat (or_default (param req k) []) else None)"

definition int_as_number_param :: "request \<Rightarrow> string \<Rightarrow> real option" where
  "int_as_number_param req k =
     (if truthy_str (param req k)
      then map_option real_of_int (parseInt (or_default (param req k) []))
      else None)"

definition flag_param :: "request \<Rightarrow> string \<Rightarrow> bool option" where
  "flag_param req k = (if truthy_str (param req k) then Some (param req k = Some ''true'') else None)"

record page_info =
  pi_page :: int
  pi_limit :: int
  pi_total :: nat
  pi_totalPages :: int

text \<open>
  The responses of the two controllers: the paginated success, the client error of
  \<^verbatim>\<open>ResponseHelper.badRequest\<close> and the server error of
  \<^verbatim>\<open>ResponseHelper.internalError\<close>, each error with its message.
\<close>

datatype response =
    Success "hit list" page_info
  | BadRequest string
  | InternalError string

text \<open>\<^verbatim>\<open>PostService.advancedSearch\<close> passes the helper's result on and rethrows its failure.\<close>

definition PostService_advancedSearch :: "store \<Rightarrow> search_params \<Rightarrow> failure + search_result" where
  "PostService_advancedSearch st ps = advancedSearch st ps"

text \<open>The controller \<^verbatim>\<open>searchPosts\<close>.\<close>

definition search_params_of :: "request \<Rightarrow> search_params" where
  "search_params_of req =
     (let geo = (truthy_str (param req ''latitude'') \<and> truthy_str (param req ''longitude''))
      in \<lparr>p_searchText = text_param req ''search'',
          p_latitude = (if geo then parseFloat (or_default (param req ''latitude'') []) else None),
          p_longitude = (if geo then parseFloat (or_default (param req ''longitude'') []) else None),
          p_radius = (if geo
                      then (if truthy_str (param req ''radius'')
                            then parseFloat (or_default (param req ''radius'') [])
                            else Some 5000)
                      else None),
          p_propertyType = text_param req ''propertyType'',
          p_listingType = text_param req ''listingType'',
          p_minPrice = float_param req ''minPrice'',
          p_maxPrice = float_param req ''maxPrice'',
          p_minArea = float_param req ''minArea'',
          p_maxArea = float_param req ''maxArea'',
          p_province = text_param req ''province'',
          p_district = text_param req ''district'',
          p_bedrooms = int_as_number_param req ''bedrooms'',
          p_bathrooms = int_as_number_param req ''bathrooms'',
          p_condition = text_param req ''condition'',
          p_featured = flag_param req ''featured'',
          p_urgent = flag_param req ''urgent'',
          p_sortBy = text_param req ''sortBy'',
          p_page = Some (int_param_or req ''page'' 1),
          p_limit = Some (int_param_or req ''limit'' 10),
          p_roadAccess = flag_param req ''roadAccess'',
          p_waterSource = flag_param req ''waterSource'',
          p_electricity = flag_param req ''electricity''\<rparr>)"

definition searchPosts :: "store \<Rightarrow> request \<Rightarrow> response" where
  "searchPosts st req =
     (case PostService_advancedSearch st (search_params_of req) of
        Inl e \<Rightarrow> InternalError ''Error searching posts''
      | Inr result \<Rightarrow>
          Success (r_posts result)
            \<lparr>pi_page = pg_current (r_pagination result),
             pi_limit = pg_limit (r_pagination result),
             pi_total = pg_totalCount (r_pagination result),
             pi_totalPages = pg_total (r_pagination result)\<rparr>)"

text \<open>
  \<^verbatim>\<open>PostService.getNearbyPosts\<close> hands the caller's filter object to the helper as it is
  (the query it also builds is never used).
\<close>

definition PostService_getNearbyPosts ::
  "store \<Rightarrow> real \<Rightarrow> real \<Rightarrow> real \<Rightarrow> int \<Rightarrow> int \<Rightarrow> query \<Rightarrow> failure + (hit list \<times> pagination)" where
  "PostService_getNearbyPosts st latitude longitude radiusInMeters page n filt =
     (let skip = (page - 1) * n
      in case findNearbyPosts st latitude longitude radiusInMeters filt skip n of
           Inl e \<Rightarrow> Inl e
         | Inr posts \<Rightarrow>
             (case countNearbyPosts st latitude longitude radiusInMeters filt of
                Inl e \<Rightarrow> Inl e
              | Inr totalCount \<Rightarrow>
                  Inr (map (\<lambda>p. with_distance latitude longitude (plain_hit p)) posts,
                       \<lparr>pg_current = page,
                        pg_total = Math_ceil_div totalCount n,
                        pg_count = length posts,
                        pg_totalCount = totalCount,
                        pg_limit = n\<rparr>)))"

text \<open>
  The controller \<^verbatim>\<open>getNearbyPosts\<close>. Its filter object holds the request's values under
  the request's names. A radius that does not parse reaches the store as \<^verbatim>\<open>NaN\<close>, which
  the store refuses.
\<close>

definition number_value :: "real option \<Rightarrow> jsval" where
  "number_value x = (case x of None \<Rightarrow> NaN | Some v \<Rightarrow> Num v)"

definition nearby_filter :: "request \<Rightarrow> query" where
  "nearby_filter req =
     (let filt = [];
          filt = (if truthy_str (param req ''propertyType'')
                  then set_key ''propertyType''
                         (Cond (Eq (Str (or_default (param req ''propertyType'') [])))) filt
                  else filt);
          filt = (if truthy_str (param req ''listingType'')
                  then set_key ''listingType''
                         (Cond (Eq (Str (or_default (param req ''listingType'') [])))) filt
                  else filt);
          filt = (if truthy_str (param req ''minPrice'')
                  then set_key ''minPrice'' (Cond (Eq (number_value (float_param req ''minPrice'')))) filt
                  else filt);
          filt = (if truthy_str (param req ''maxPrice'')
                  then set_key ''maxPrice'' (Cond (Eq (number_value (float_param req ''maxPrice'')))) filt
                  else filt);
          filt = (if truthy_str (param req ''minArea'')
                  then set_key ''minArea'' (Cond (Eq (number_value (float_param req ''minArea'')))) filt
                  else filt);
          filt = (if truthy_str (param req ''maxArea'')
                  then set_key ''maxArea'' (Cond (Eq (number_value (float_param req ''maxArea'')))) filt
                  else filt)
      in filt)"

definition getNearbyPosts :: "store \<Rightarrow> request \<Rightarrow> response" where
  "getNearbyPosts st req =
     (let latitude = param req ''latitude'';
          longitude = param req ''longitude'';
          radius = (if truthy_str (param req ''radius'')
                    then parseFloat (or_default (param req ''radius'') [])
                    else Some 5000);
          page = int_param_or req ''page'' 1;
          n = int_param_or req ''limit'' 10
      in if \<not> truthy_str latitude \<or> \<not> truthy_str longitude
         then BadRequest ''Latitude and longitude are required''
         else
           case (parseFloat (or_default latitude []), parseFloat (or_default longitude [])) of
             (Some lt, Some lg) \<Rightarrow>
               if lt < - 90 \<or> lt > 90 \<or> lg < - 180 \<or> lg > 180
               then BadRequest ''Invalid latitude or longitude values''
               else
                 (case radius of
                    None \<Rightarrow> InternalError ''Error searching nearby posts''
                  | Some r \<Rightarrow>
                      (case PostService_getNearbyPosts st lt lg r page n (nearby_filter req) of
                         Inl e \<Rightarrow> InternalError ''Error searching nearby posts''
                       | Inr (posts, pg) \<Rightarrow>
                           Success posts
                             \<lparr>pi_page = pg_current pg,
                              pi_limit = pg_limit pg,
                              pi_total = pg_totalCount pg,
                              pi_totalPages = pg_total pg\<rparr>))
           | _ \<Rightarrow> BadRequest ''Invalid latitude or longitude values'')"


section \<open>Sample data\<close>

text \<open>
  A small store for concrete runs: its pattern match is the case-insensitive substring test,
  its distance the taxicab distance in degrees scaled to metres, and it refuses a proximity
  query whose point is off the globe.
\<close>

definition listing :: "string \<Rightarrow> string \<Rightarrow> string \<Rightarrow> real \<Rightarrow> post" where
  "listing t d s created =
     \<lparr>title = t, description = d, price = 250000000, propertyType = ''land'',
      listingType = ''sell'', area = 400, address_street = ''Rue 23'',
      address_district = ''Chanthabouly'', address_province = ''Vientiane'',
      lng = 102, lat = 18,
      houseDetails_bedrooms = None, houseDetails_bathrooms = None,
      landDetails_roadAccess = Some True, landDetails_waterSource = Some False,
      landDetails_utilities = [''electricity''], condition = ''good'', status = s,
      featured = False, urgent = False, authorId = ''64b7f0c2a1d3e4f5a6b7c8d9'',
      tags = Some [], post_keywords = Some [], viewCount = 0, createdAt = created\<rparr>"

definition point_ok :: "query \<Rightarrow> bool" where
  "point_ok q =
     (case near_of q of
        None \<Rightarrow> True
      | Some (qlng, qlat) \<Rightarrow> - 180 \<le> qlng \<and> qlng \<le> 180 \<and> - 90 \<le> qlat \<and> qlat \<le> 90)"

definition sample_store :: "post list \<Rightarrow> store" where
  "sample_store ds =
     \<lparr>docs = ds,
      accepts = point_ok,
      regex_test = (\<lambda>pattern s. str_includes (toLowerCase s) (toLowerCase pattern)),
      geo_dist = (\<lambda>lng1 lat1 lng2 lat2. 111320 * (\<bar>lng1 - lng2\<bar> + \<bar>lat1 - lat2\<bar>)),
      regexp_ok = (\<lambda>pattern. True)\<rparr>"

definition empty_params :: search_params where
  "empty_params =
     \<lparr>p_searchText = None, p_latitude = None, p_longitude = None, p_radius = None,
      p_propertyType = None, p_listingType = None, p_minPrice = None, p_maxPrice = None,
      p_minArea = None, p_maxArea = None, p_province = None, p_district = None,
      p_bedrooms = None, p_bathrooms = None, p_condition = None, p_featured = None,
      p_urgent = None, p_sortBy = None, p_page = None, p_limit = None,
      p_roadAccess = None, p_waterSource = None, p_electricity = None\<rparr>"

definition title_match :: post where
  "title_match = listing ''House near market'' ''Two floors, quiet street'' ''approved'' 1"

definition description_match :: post where
  "description_match = listing ''Family house'' ''Close to the market'' ''approved'' 2"

definition pending_listing :: post where
  "pending_listing = listing ''Shop house'' ''Awaiting review'' ''pending'' 3"


definition well_viewed :: post where
  "well_viewed =
     (listing ''Market'' ''Shop house at the morning market'' ''approved'' 4)
       \<lparr>tags := Some [''market'', ''shop'', ''supermarket''],
        post_keywords := Some [''Night Market''],
        address_street := ''Market road'',
        featured := True, urgent := True, viewCount := 250\<rparr>"


text \<open>Three listings, the last one awaiting approval, and requests against them.\<close>

definition listed :: store where
  "listed = sample_store [description_match, title_match, pending_listing]"

definition market_request :: search_params where
  "market_request = empty_params\<lparr>p_searchText := Some ''market''\<rparr>"

definition market_by_distance :: search_params where
  "market_by_distance = market_request\<lparr>p_sortBy := Some ''distance''\<rparr>"

definition market_page_six :: search_params where
  "market_page_six = market_request\<lparr>p_page := Some 6, p_limit := Some 1\<rparr>"

definition land_by_price :: search_params where
  "land_by_price =
     empty_params\<lparr>p_propertyType := Some ''land'', p_minPrice := Some 200000000,
                   p_maxPrice := Some 600000000, p_sortBy := Some ''price_asc'',
                   p_limit := Some 1\<rparr>"

definition on_the_equator :: search_params where
  "on_the_equator = empty_params\<lparr>p_latitude := Some 0, p_longitude := Some 102\<rparr>"

definition pending_filter :: query where
  "pending_filter = [(''status'', Cond (Eq (Str ''pending'')))]"

definition off_the_globe :: request where
  "off_the_globe = [(''latitude'', ''999''), (''longitude'', ''102'')]"


text \<open>The two market listings again, both featured and with 500 views.\<close>

definition title_match_promoted :: post where
  "title_match_promoted = title_match\<lparr>featured := True, viewCount := 500\<rparr>"

definition description_match_promoted :: post where
  "description_match_promoted = description_match\<lparr>featured := True, viewCount := 500\<rparr>"


section \<open>Notions used in the statements\<close>

text \<open>
  The part of a score that does not depend on the query, and what it means for a listing to
  match a query in its description and nowhere else.
\<close>

definition boosts :: "post \<Rightarrow> real" where
  "boosts p = (if featured p then 2 else 0) + (if urgent p then 1 else 0) + popularity p"

definition description_only :: "post \<Rightarrow> string \<Rightarrow> bool" where
  "description_only p q =
     (contains_ci (description p) q
      \<and> \<not> contains_ci (title p) q
      \<and> matching (tags p) q = 0
      \<and> matching (post_keywords p) q = 0
      \<and> \<not> contains_ci (address_province p) q
      \<and> \<not> contains_ci (address_district p) q
      \<and> \<not> contains_ci (address_street p) q)"


text \<open>
  The request as \<^verbatim>\<open>advancedSearch\<close> reads it, with its defaults, and the mode in which
  the engine ranks by relevance: free text is present and the sort key is not the distance.
\<close>

definition page_of :: "search_params \<Rightarrow> int" where
  "page_of ps = or_default (p_page ps) 1"

definition limit_of :: "search_params \<Rightarrow> int" where
  "limit_of ps = or_default (p_limit ps) 10"

definition sortBy_of :: "search_params \<Rightarrow> string" where
  "sortBy_of ps = or_default (p_sortBy ps) ''newest''"

definition searchText_of :: "search_params \<Rightarrow> string" where
  "searchText_of ps = or_default (p_searchText ps) []"

definition has_text :: "search_params \<Rightarrow> bool" where
  "has_text ps = truthy_str (p_searchText ps)"

definition has_geocenter :: "search_params \<Rightarrow> bool" where
  "has_geocenter ps = (truthy_num (p_latitude ps) \<and> truthy_num (p_longitude ps))"

definition relevance_mode :: "search_params \<Rightarrow> bool" where
  "relevance_mode ps = (has_text ps \<and> sortBy_of ps \<noteq> ''distance'')"

text \<open>
  A request the engine can serve: the page and the page size are at least 1, the free text
  (if any) is a pattern that compiles, and the store accepts the query built from it.
\<close>

definition request_ok :: "store \<Rightarrow> search_params \<Rightarrow> bool" where
  "request_ok st ps =
     (1 \<le> page_of ps \<and> 1 \<le> limit_of ps
      \<and> (if has_text ps then regexp_ok st (searchText_of ps) else True)
      \<and> accepts st (build_query ps))"

text \<open>The documents that satisfy the predicate of a request, all of them, in natural order.\<close>

definition satisfying :: "store \<Rightarrow> search_params \<Rightarrow> post list" where
  "satisfying st ps = filter (matches st (build_query ps)) (docs st)"

text \<open>A candidate with its score attached, and a result entry without its distance.\<close>

definition scored :: "string \<Rightarrow> post \<Rightarrow> hit" where
  "scored q p = \<lparr>hit_post = p, relevanceScore = Some (calculateRelevanceScore p q), distance = None\<rparr>"

definition without_distance :: "hit \<Rightarrow> hit" where
  "without_distance h = h\<lparr>distance := None\<rparr>"

text \<open>Whether a response is the client error of a failed validation.\<close>

definition rejected :: "response \<Rightarrow> bool" where
  "rejected r = (case r of BadRequest m \<Rightarrow> True | _ \<Rightarrow> False)"


text \<open>The candidate window with every candidate scored, sorted as the engine sorts it.\<close>

definition ranked :: "string \<Rightarrow> post list \<Rightarrow> hit list" where
  "ranked q window = Array_sort (\<lambda>a b. score_of b - score_of a) (map (scored q) window)"


section \<open>Facts about strings\<close>

lemma startsWith_refl: "startsWith s s"
  by (induction s) simp_all

lemma includes_refl: "str_includes s s"
  by (cases s) (simp_all add: startsWith_refl)

lemma includes_Nil_left: "str_includes [] q \<longleftrightarrow> q = []"
  by simp

lemma toLowerCase_Nil_iff: "toLowerCase s = [] \<longleftrightarrow> s = []"
  by (simp add: toLowerCase_def)

lemma fold_add_weight:
  "fold (\<lambda>x. add_if (P x) w) xs s0 = s0 + w * real (length (filter P xs))"
  by (induction xs arbitrary: s0) (simp_all add: add_if_def algebra_simps)


section \<open>The score is the weighted sum\<close>

lemma title_term:
  assumes "q \<noteq> []"
  shows "(if t \<noteq> [] \<and> str_includes (toLowerCase t) (toLowerCase q)
          then add_if (toLowerCase t = toLowerCase q) 5 (0 + 10) else 0)
       = (if contains_ci t q then 10 else 0) + (if equals_ci t q then 5 else 0)"
proof (cases "toLowerCase t = toLowerCase q")
  case True
  with assms have "t \<noteq> []"
    using toLowerCase_Nil_iff by metis
  with True show ?thesis
    by (simp add: contains_ci_def equals_ci_def includes_refl add_if_def)
next
  case False
  have "str_includes (toLowerCase t) (toLowerCase q) \<Longrightarrow> t \<noteq> []"
    using assms by (auto simp: toLowerCase_def)
  with False show ?thesis
    by (auto simp: contains_ci_def equals_ci_def add_if_def)
qed

lemma description_term:
  assumes "q \<noteq> []"
  shows "(d \<noteq> [] \<and> str_includes (toLowerCase d) (toLowerCase q)) = contains_ci d q"
  using assms by (auto simp: contains_ci_def toLowerCase_def)

lemma score_is_weighted_sum:
  assumes "q \<noteq> []"
  shows "calculateRelevanceScore p q = weighted_sum p q"
proof -
  have t: "(if title p \<noteq> [] \<and> str_includes (toLowerCase (title p)) (toLowerCase q)
            then add_if (toLowerCase (title p) = toLowerCase q) 5 (0 + 10) else 0)
         = (if contains_ci (title p) q then 10 else 0) + (if equals_ci (title p) q then 5 else 0)"
    using assms by (rule title_term)
  have d: "(description p \<noteq> [] \<and> str_includes (toLowerCase (description p)) (toLowerCase q))
         = contains_ci (description p) q"
    using assms by (rule description_term)
  show ?thesis
    unfolding calculateRelevanceScore_def weighted_sum_def Let_def t d
    using assms
    by (simp add: fold_add_weight matching_def popularity_def contains_ci_def add_if_def
             split: option.split)
qed

lemma popularity_bounds: "0 \<le> popularity p \<and> popularity p \<le> 3"
  by (simp add: popularity_def)

lemma weighted_sum_nonneg: "0 \<le> weighted_sum p q"
proof -
  have "0 \<le> popularity p" using popularity_bounds by blast
  then show ?thesis
    unfolding weighted_sum_def by (simp add: add_nonneg_nonneg)
qed


lemma equals_ci_contains_ci: "equals_ci t q \<Longrightarrow> contains_ci t q"
  by (simp add: equals_ci_def contains_ci_def includes_refl)

lemma boosts_bounds: "0 \<le> boosts p \<and> boosts p \<le> 6"
  using popularity_bounds [of p] by (simp add: boosts_def)

lemma title_match_at_least:
  assumes "contains_ci (title a) q"
  shows "10 + boosts a \<le> weighted_sum a q"
proof -
  have "0 \<le> (8::real) * real (matching (tags a) q)"
    and "0 \<le> (7::real) * real (matching (post_keywords a) q)"
    by simp_all
  with assms show ?thesis
    unfolding weighted_sum_def boosts_def by (simp add: add_nonneg_nonneg)
qed

lemma description_only_score:
  assumes "description_only b q"
  shows "weighted_sum b q = 3 + boosts b"
proof -
  from assms have "\<not> equals_ci (title b) q"
    using equals_ci_contains_ci by (auto simp: description_only_def)
  with assms show ?thesis
    unfolding weighted_sum_def boosts_def description_only_def by simp
qed


section \<open>Relevance Scorer: results\<close>

text \<open>
  C5. For a non-empty query the score of a listing is the sum of its weights: 10 if the
  title contains the query (case-insensitively), 5 more if the title equals it, 8 for each
  tag and 7 for each keyword containing it, 6, 5 and 4 if the province, the district and
  the street contain it, 3 if the description does, 2 if the listing is featured, 1 if it
  is urgent, and the view count divided by 100, capped at 3. The score is never negative.
  It is a function of the listing and the query alone.
\<close>

theorem relevance_score_is_sum_of_weights:
  assumes "searchText \<noteq> []"
  shows "calculateRelevanceScore p searchText =
           (if contains_ci (title p) searchText then 10 else 0)
         + (if equals_ci (title p) searchText then 5 else 0)
         + 8 * real (matching (tags p) searchText)
         + 7 * real (matching (post_keywords p) searchText)
         + (if contains_ci (address_province p) searchText then 6 else 0)
         + (if contains_ci (address_district p) searchText then 5 else 0)
         + (if contains_ci (address_street p) searchText then 4 else 0)
         + (if contains_ci (description p) searchText then 3 else 0)
         + (if featured p then 2 else 0)
         + (if urgent p then 1 else 0)
         + min (real (viewCount p) / 100) 3
       \<and> 0 \<le> calculateRelevanceScore p searchText"
proof -
  have "calculateRelevanceScore p searchText = weighted_sum p searchText"
    using assms by (rule score_is_weighted_sum)
  moreover have "0 \<le> weighted_sum p searchText"
    by (rule weighted_sum_nonneg)
  ultimately show ?thesis
    by (simp add: weighted_sum_def popularity_def)
qed

theorem relevance_score_is_sum_of_weights_witness:
  "''market'' \<noteq> []
   \<and> calculateRelevanceScore well_viewed ''market'' = 10 + 5 + 8 * 2 + 7 * 1 + 4 + 3 + 2 + 1 + 5 / 2
   \<and> 0 \<le> calculateRelevanceScore well_viewed ''market''"
proof -
  have ne: "''market'' \<noteq> []" by simp
  have v: "calculateRelevanceScore well_viewed ''market'' = 10 + 5 + 8 * 2 + 7 * 1 + 4 + 3 + 2 + 1 + 5 / 2"
    by code_simp
  from relevance_score_is_sum_of_weights [OF ne, of well_viewed]
  have "0 \<le> calculateRelevanceScore well_viewed ''market''" by blast
  with ne v show ?thesis by blast
qed

text \<open>
  When the view count is a multiple of 100 or at least 300, the popularity term is a whole
  number, and so is the whole score: every sum the code forms is then a sum of whole
  numbers, which its double arithmetic forms without rounding.
\<close>

lemma popularity_whole:
  assumes "viewCount p mod 100 = 0 \<or> 300 \<le> viewCount p"
  shows "popularity p = real (min (viewCount p div 100) 3)"
proof -
  from assms consider "300 \<le> viewCount p" | "viewCount p mod 100 = 0" by auto
  then show ?thesis
  proof cases
    case 1
    then have "3 \<le> real (viewCount p) / 100" by simp
    moreover from 1 have "3 \<le> viewCount p div 100" by (simp add: less_eq_div_iff_mult_less_eq)
    ultimately show ?thesis by (simp add: popularity_def min_def)
  next
    case 2
    then have "100 dvd viewCount p" by (rule mod_0_imp_dvd)
    then have "viewCount p = 100 * (viewCount p div 100)" by simp
    then have "real (viewCount p) = 100 * real (viewCount p div 100)"
      by (metis of_nat_mult of_nat_numeral)
    then have "real (viewCount p) / 100 = real (viewCount p div 100)" by simp
    then show ?thesis by (simp add: popularity_def min_def)
  qed
qed

lemma weighted_sum_whole:
  assumes "viewCount p mod 100 = 0 \<or> 300 \<le> viewCount p"
  shows "weighted_sum p q \<in> \<nat>"
  unfolding weighted_sum_def popularity_whole [OF assms]
  by (intro Nats_add Nats_mult of_nat_in_Nats) simp_all

text \<open>
  C6, as amended. For the query "market", a listing whose title contains the query scores
  at least 1 point more than any listing that matches the query in its description only.
  It scores at least 7 points more when the two listings have the same featured and urgent
  flags and the same view count, and that view count is a multiple of 100 or at least 300;
  both scores are then whole numbers. (The title match is worth 10, the description match
  3, the flags and the view count 6 at most. For other view counts the popularity term is a
  fraction that the code's double arithmetic rounds, and the gap of 7 holds only up to that
  rounding.)
\<close>

theorem title_match_outranks_description_match:
  assumes "contains_ci (title a) ''market''"
    and "description_only b ''market''"
  shows "calculateRelevanceScore b ''market'' + 1 \<le> calculateRelevanceScore a ''market''
       \<and> (featured a = featured b \<and> urgent a = urgent b \<and> viewCount a = viewCount b
            \<and> (viewCount b mod 100 = 0 \<or> 300 \<le> viewCount b)
            \<longrightarrow> calculateRelevanceScore b ''market'' + 7 \<le> calculateRelevanceScore a ''market''
                \<and> calculateRelevanceScore a ''market'' \<in> \<nat>
                \<and> calculateRelevanceScore b ''market'' \<in> \<nat>)"
proof -
  have sa: "calculateRelevanceScore a ''market'' = weighted_sum a ''market''"
    and sb: "calculateRelevanceScore b ''market'' = weighted_sum b ''market''"
    by (simp_all add: score_is_weighted_sum)
  have lo: "10 + boosts a \<le> weighted_sum a ''market''"
    using assms(1) by (rule title_match_at_least)
  have eq: "weighted_sum b ''market'' = 3 + boosts b"
    using assms(2) by (rule description_only_score)
  have "0 \<le> boosts a" and "boosts b \<le> 6"
    using boosts_bounds by blast+
  with lo eq have first: "weighted_sum b ''market'' + 1 \<le> weighted_sum a ''market''"
    by linarith
  have second: "weighted_sum b ''market'' + 7 \<le> weighted_sum a ''market''
      \<and> weighted_sum a ''market'' \<in> \<nat> \<and> weighted_sum b ''market'' \<in> \<nat>"
    if same: "featured a = featured b \<and> urgent a = urgent b \<and> viewCount a = viewCount b
      \<and> (viewCount b mod 100 = 0 \<or> 300 \<le> viewCount b)"
  proof -
    from same have "boosts a = boosts b"
      by (simp add: boosts_def popularity_def)
    with lo eq have gap: "weighted_sum b ''market'' + 7 \<le> weighted_sum a ''market''"
      by linarith
    from same have vb: "viewCount b mod 100 = 0 \<or> 300 \<le> viewCount b"
      and va: "viewCount a mod 100 = 0 \<or> 300 \<le> viewCount a"
      by simp_all
    from gap weighted_sum_whole [OF va] weighted_sum_whole [OF vb] show ?thesis
      by (intro conjI)
  qed
  from first second show ?thesis
    unfolding sa sb by blast
qed

theorem title_match_outranks_description_match_witness:
  "contains_ci (title title_match_promoted) ''market''
   \<and> description_only description_match_promoted ''market''
   \<and> calculateRelevanceScore title_match_promoted ''market'' = 15
   \<and> calculateRelevanceScore description_match_promoted ''market'' = 8
   \<and> calculateRelevanceScore description_match_promoted ''market'' + 7
       \<le> calculateRelevanceScore title_match_promoted ''market''"
proof -
  have a: "contains_ci (title title_match_promoted) ''market''"
    by code_simp
  have b: "description_only description_match_promoted ''market''"
    by code_simp
  have same: "featured title_match_promoted = featured description_match_promoted
              \<and> urgent title_match_promoted = urgent description_match_promoted
              \<and> viewCount title_match_promoted = viewCount description_match_promoted
              \<and> (viewCount description_match_promoted mod 100 = 0
                   \<or> 300 \<le> viewCount description_match_promoted)"
    by code_simp
  have va: "calculateRelevanceScore title_match_promoted ''market'' = 15"
    by code_simp
  have vb: "calculateRelevanceScore description_match_promoted ''market'' = 8"
    by code_simp
  from title_match_outranks_description_match [OF a b] same
  have "calculateRelevanceScore description_match_promoted ''market'' + 7
       \<le> calculateRelevanceScore title_match_promoted ''market''"
    by blast
  with a b va vb show ?thesis by (intro conjI)
qed

text \<open>
  The claim as first stated asks for 10 points between the two listings. The listing titled
  "House near market" scores 10 and the listing with "market" in its description alone
  scores 3: the difference is 7.
\<close>

theorem ten_point_gap_counterexample:
  "contains_ci (title title_match) ''market''
   \<and> description_only description_match ''market''
   \<and> calculateRelevanceScore title_match ''market'' = 10
   \<and> calculateRelevanceScore description_match ''market'' = 3
   \<and> \<not> (calculateRelevanceScore description_match ''market'' + 10
          \<le> calculateRelevanceScore title_match ''market'')"
  by code_simp


section \<open>Geospatial Locator: results\<close>

lemma sin_half_squared: "(sin (x / 2))\<^sup>2 = (1 - cos x) / (2::real)"
  using cos_double_sin [of "x / 2"] by simp

text \<open>The quantity \<open>a\<close> is half of one minus the cosine of the central angle.\<close>

lemma haversine_a_central_angle:
  "haversine_a lat1 lon1 lat2 lon2 =
     (1 - (sin (deg2rad lat1) * sin (deg2rad lat2)
           + cos (deg2rad lat1) * cos (deg2rad lat2) * cos (deg2rad (lon2 - lon1)))) / 2"
proof -
  have d: "deg2rad (lat2 - lat1) = deg2rad lat2 - deg2rad lat1"
    unfolding deg2rad_def by (rule left_diff_distrib)
  show ?thesis
    unfolding haversine_a_def sin_half_squared d cos_diff
    by (simp add: field_simps)
qed

lemma halves_add_up:
  fixes p q P Q R S :: real
  assumes "2 * p \<le> P + Q" "2 * q \<le> R + S" "P + R = 1" "Q + S = 1"
  shows "p + q \<le> 1"
  using assms by linarith

lemma central_angle_cosine_bound:
  fixes a b c :: real
  assumes "\<bar>c\<bar> \<le> 1"
  shows "\<bar>sin a * sin b + cos a * cos b * c\<bar> \<le> 1"
proof -
  have "\<bar>sin a * sin b + cos a * cos b * c\<bar> \<le> \<bar>sin a * sin b\<bar> + \<bar>cos a * cos b * c\<bar>"
    by (rule abs_triangle_ineq)
  also have "\<bar>cos a * cos b * c\<bar> \<le> \<bar>cos a * cos b\<bar>"
    using assms by (simp add: abs_mult mult_left_le)
  also have "\<bar>sin a * sin b\<bar> + \<bar>cos a * cos b\<bar> \<le> 1"
  proof -
    have "2 * (\<bar>sin a\<bar> * \<bar>sin b\<bar>) \<le> (sin a)\<^sup>2 + (sin b)\<^sup>2"
      using sum_squares_bound [of "\<bar>sin a\<bar>" "\<bar>sin b\<bar>"] by (simp add: mult.assoc)
    moreover have "2 * (\<bar>cos a\<bar> * \<bar>cos b\<bar>) \<le> (cos a)\<^sup>2 + (cos b)\<^sup>2"
      using sum_squares_bound [of "\<bar>cos a\<bar>" "\<bar>cos b\<bar>"] by (simp add: mult.assoc)
    moreover have "(sin a)\<^sup>2 + (cos a)\<^sup>2 = 1" "(sin b)\<^sup>2 + (cos b)\<^sup>2 = 1"
      by simp_all
    ultimately have "\<bar>sin a\<bar> * \<bar>sin b\<bar> + \<bar>cos a\<bar> * \<bar>cos b\<bar> \<le> 1"
      by (rule halves_add_up)
    then show ?thesis
      by (simp add: abs_mult)
  qed
  finally show ?thesis by simp
qed

text \<open>
  So \<open>a\<close> lies between 0 and 1 for all coordinates, and neither square root in the
  distance is taken of a negative number.
\<close>

lemma haversine_a_range:
  "0 \<le> haversine_a lat1 lon1 lat2 lon2 \<and> haversine_a lat1 lon1 lat2 lon2 \<le> 1"
proof -
  have "\<bar>cos (deg2rad (lon2 - lon1))\<bar> \<le> 1" by simp
  from central_angle_cosine_bound [OF this, of "deg2rad lat1" "deg2rad lat2"] show ?thesis
    unfolding haversine_a_central_angle by (simp add: abs_le_iff)
qed

lemma atan2_is_arcsin:
  assumes "0 \<le> a" "a \<le> 1"
  shows "Math_atan2 (sqrt a) (sqrt (1 - a)) = arcsin (sqrt a)"
proof (cases "a = 1")
  case True
  then show ?thesis by (simp add: Math_atan2_def)
next
  case False
  with assms have lt: "a < 1" by simp
  then have pos: "0 < sqrt (1 - a)" by simp
  have s: "0 \<le> sqrt a" "sqrt a < 1"
    using assms lt by (simp_all add: real_sqrt_lt_1_iff)
  define t where "t = arcsin (sqrt a)"
  have "- 1 < sqrt a" using s by linarith
  from arcsin_lt_bounded [OF this s(2)] have tr: "- (pi / 2) < t" "t < pi / 2"
    unfolding t_def by simp_all
  have st: "sin t = sqrt a"
    unfolding t_def using s by (intro sin_arcsin) linarith+
  have "cos t = sqrt (1 - (sqrt a)\<^sup>2)"
    unfolding t_def using s by (intro cos_arcsin) linarith+
  then have ct: "cos t = sqrt (1 - a)"
    using assms by simp
  have "tan t = sqrt a / sqrt (1 - a)"
    by (simp add: tan_def st ct)
  then have "arctan (sqrt a / sqrt (1 - a)) = t"
    using arctan_tan [OF tr] by simp
  with pos show ?thesis
    by (simp add: Math_atan2_def t_def)
qed

text \<open>The distance in kilometres is the arc \<open>2 R arcsin \<surd>a\<close>, between 0 and half the
  circumference.\<close>

lemma haversine_km_arcsin:
  "haversine_km lat1 lon1 lat2 lon2 = 2 * 6371 * arcsin (sqrt (haversine_a lat1 lon1 lat2 lon2))"
  using haversine_a_range [of lat1 lon1 lat2 lon2]
  by (simp add: haversine_km_def atan2_is_arcsin)

text \<open>
  The utility of the same name computes the same arc in kilometres; the engine's distance
  is that value in metres, rounded.
\<close>

lemma CoordinateUtils_distance_is_haversine_km:
  "CoordinateUtils_calculateDistance lat1 lng1 lat2 lng2 = haversine_km lat1 lng1 lat2 lng2"
  unfolding CoordinateUtils_calculateDistance_def haversine_km_def haversine_a_def
    toRadians_def deg2rad_def Let_def
  by (simp add: power2_eq_square algebra_simps)

lemma calculateDistance_rounds_utility:
  "calculateDistance lat1 lon1 lat2 lon2
     = Math_round (1000 * CoordinateUtils_calculateDistance lat1 lon1 lat2 lon2)"
  unfolding calculateDistance_def CoordinateUtils_calculateDistance_def
    toRadians_def deg2rad_def Let_def
  by (simp add: algebra_simps)

text \<open>
  In exact arithmetic, for all coordinates in degrees, \<open>calculateDistance\<close> is the
  haversine distance of the design document:
  \<open>a = sin\<^sup>2(\<Delta>lat/2) + cos(lat1) cos(lat2) sin\<^sup>2(\<Delta>lon/2)\<close>,
  \<open>d = 2 R atan2(\<surd>a, \<surd>(1 - a))\<close> with \<open>R\<close> = 6371 km and angles converted from degrees to
  radians, in metres and rounded to the nearest integer.
\<close>

lemma calculateDistance_is_haversine:
  "calculateDistance lat1 lon1 lat2 lon2 = haversine_metres lat1 lon1 lat2 lon2"
  unfolding calculateDistance_def haversine_metres_def haversine_km_def haversine_a_def
    Math_round_def round_def Let_def
  by (simp add: power2_eq_square algebra_simps)

lemma calculateDistance_same_point: "calculateDistance 18 102 18 102 = 0"
  by (simp add: calculateDistance_def Math_round_def Math_atan2_def deg2rad_def)

text \<open>
  C9. The claim is that \<open>calculateDistance\<close> returns that distance for all coordinate
  pairs. The program computes in doubles, and there the claim fails for points that are
  antipodal or nearly so. For such points the exact \<open>a\<close> is 1 or just below it: for
  (-82, -179) and (82, 1) it is exactly 1. The rounded sum of the program comes out just
  above 1, so \<open>1 - a\<close> is negative, its square root is \<^verbatim>\<open>NaN\<close>, and the function
  returns \<^verbatim>\<open>NaN\<close> instead of half the circumference. The reals of this model do not
  show the rounding; they show that the input lies on the boundary of the domain of
  \<open>\<surd>(1 - a)\<close>, where the code has no guard on \<open>a\<close>.
\<close>

lemma haversine_a_antipodal: "haversine_a (- 82) (- 179) 82 1 = 1"
proof -
  have h: "deg2rad (82 - - 82) / 2 = deg2rad 82" "deg2rad (1 - - 179) / 2 = pi / 2"
    "deg2rad (- 82) = - deg2rad 82"
    by (simp_all add: deg2rad_def)
  have one: "sin (deg2rad 82) * sin (deg2rad 82) + cos (deg2rad 82) * cos (deg2rad 82) = 1"
    using sin_cos_squared_add [of "deg2rad 82"] by (simp add: power2_eq_square)
  show ?thesis
    unfolding haversine_a_def h by (simp add: power2_eq_square one)
qed

lemma antipodal_distance_exact:
  "calculateDistance (- 82) (- 179) 82 1 = round (6371000 * pi)"
proof -
  have "haversine_km (- 82) (- 179) 82 1 = 2 * 6371 * (pi / 2)"
    unfolding haversine_km_arcsin haversine_a_antipodal by simp
  then show ?thesis
    by (simp add: calculateDistance_is_haversine haversine_metres_def)
qed


section \<open>Arrays: results\<close>

text \<open>
  Sorting with the comparator \<open>b.score - a.score\<close> is the stable insertion sort of the
  library on the negated score: the result is a permutation, in descending order of score,
  and entries of equal score keep their order.
\<close>

lemma insert_by_insort:
  fixes f :: "'a \<Rightarrow> real"
  shows "insert_by (\<lambda>a b. f b - f a) x ys = insort_key (\<lambda>h. - f h) x ys"
  by (induction ys) simp_all

lemma Array_sort_sort_key:
  fixes f :: "'a \<Rightarrow> real"
  shows "Array_sort (\<lambda>a b. f b - f a) xs = sort_key (\<lambda>h. - f h) xs"
  by (induction xs) (simp_all add: Array_sort_def sort_key_def insert_by_insort)

lemma Array_sort_descending:
  fixes f :: "'a \<Rightarrow> real"
  shows "sorted_wrt (\<lambda>a b. f b \<le> f a) (Array_sort (\<lambda>a b. f b - f a) xs)"
proof -
  have "sorted (map (\<lambda>h. - f h) (sort_key (\<lambda>h. - f h) xs))"
    by (rule sorted_sort_key)
  then show ?thesis
    by (simp add: Array_sort_sort_key sorted_map)
qed

lemma Array_sort_mset:
  fixes f :: "'a \<Rightarrow> real"
  shows "mset (Array_sort (\<lambda>a b. f b - f a) xs) = mset xs"
  by (simp add: Array_sort_sort_key)

lemma Array_sort_stable:
  fixes f :: "'a \<Rightarrow> real"
  shows "filter (\<lambda>h. f h = k) (Array_sort (\<lambda>a b. f b - f a) xs) = filter (\<lambda>h. f h = k) xs"
  using sort_key_stable [of "\<lambda>h. - f h" "- k" xs]
  by (simp add: Array_sort_sort_key)

lemma Array_slice_page:
  assumes "0 \<le> skip" "0 \<le> n"
  shows "Array_slice skip (skip + n) xs = take (nat n) (drop (nat skip) xs)"
proof -
  have "min (nat (skip + n)) (length xs) - min (nat skip) (length xs) = min (nat n) (length xs - nat skip)"
    using assms by (auto simp add: nat_add_distrib min_def)
  then show ?thesis
    using assms by (simp add: Array_slice_def slice_index_def Let_def drop_take min_def)
qed

lemma set_Array_slice: "set (Array_slice a b xs) \<subseteq> set xs"
  by (auto simp: Array_slice_def Let_def dest: in_set_takeD in_set_dropD)


section \<open>Predicate Builder: results\<close>

text \<open>
  No step of the query builder touches the key \<open>status\<close>, so the query of every request
  demands an approved listing; a document that matches a query satisfies each of its clauses.
\<close>

lemma map_of_set_key_other: "k \<noteq> k' \<Longrightarrow> map_of (set_key k v q) k' = map_of q k'"
  by (induction q) auto

lemma map_of_assign_other:
  "k' \<notin> fst ` set src \<Longrightarrow> map_of (assign q src) k' = map_of q k'"
  unfolding assign_def
  by (induction src arbitrary: q) (auto simp: map_of_set_key_other)

lemma map_of_provided:
  "(\<And>q'. map_of (f q') k = map_of q' k) \<Longrightarrow> map_of (provided c f q) k = map_of q k"
  by (simp add: provided_def)

lemma map_of_set_defined_other:
  "k \<noteq> k' \<Longrightarrow> map_of (set_defined k v q) k' = map_of q k'"
  by (simp add: set_defined_def map_of_set_key_other split: option.split)

lemma text_query_keys: "''status'' \<notin> fst ` set (buildTextSearchQuery t)"
  by (simp add: buildTextSearchQuery_def)

lemma range_query_keys: "f \<noteq> ''status'' \<Longrightarrow> ''status'' \<notin> fst ` set (buildRangeQuery f a b)"
  by (simp add: buildRangeQuery_def)

lemma build_query_status:
  "map_of (build_query ps) ''status'' = Some (Cond (Eq (Str ''approved'')))"
  unfolding build_query_def Let_def
  by (simp add: map_of_provided map_of_set_key_other map_of_set_defined_other
        map_of_assign_other text_query_keys range_query_keys approved_only_def)

lemma field_of_status: "field_of ''status'' p = Some (Str (status p))"
  by (simp add: field_of_def doc_fields_def)

lemma matches_entry:
  assumes "matches st q p" "map_of q k = Some (Cond c)"
  shows "cond_holds st c (field_of k p)"
proof -
  from assms(2) have "(k, Cond c) \<in> set q" by (rule map_of_SomeD)
  with assms(1) have "clause_holds st p (k, Cond c)"
    unfolding matches_def list_all_iff by blast
  then show ?thesis by simp
qed

lemma matches_status:
  assumes "matches st q p" "map_of q ''status'' = Some (Cond (Eq (Str s)))"
  shows "status p = s"
  using matches_entry [OF assms] by (simp add: field_of_status)

lemma satisfying_approved: "p \<in> set (satisfying st ps) \<Longrightarrow> status p = ''approved''"
  by (auto simp: satisfying_def intro: matches_status build_query_status)

lemma satisfying_as_count:
  "satisfying st ps = filter (\<lambda>p. status p = ''approved'' \<and> matches st (build_query ps) p) (docs st)"
  unfolding satisfying_def
  by (rule filter_cong) (auto intro: matches_status build_query_status)

lemma build_query_ignores_paging:
  "build_query (ps\<lparr>p_page := pg, p_limit := lm, p_sortBy := sb\<rparr>) = build_query ps"
  by (simp add: build_query_def)


section \<open>The store: results\<close>

lemma set_store_sort: "set (store_sort st q sq ms) = set ms"
  by (simp add: store_sort_def split: option.split prod.split)

lemma set_apply_limit: "set (apply_limit n xs) \<subseteq> set xs"
  by (auto simp: apply_limit_def dest: in_set_takeD)

lemma store_find_matches:
  assumes "store_find st q sq skip n = Inr ps"
  shows "set ps \<subseteq> {p \<in> set (docs st). matches st q p}"
proof -
  from assms have "ps = apply_limit n (drop (nat skip) (store_sort st q sq (filter (matches st q) (docs st))))"
    by (simp add: store_find_def split: if_splits)
  then have "set ps \<subseteq> set (store_sort st q sq (filter (matches st q) (docs st)))"
    using set_apply_limit set_drop_subset by (metis subset_trans)
  then show ?thesis
    by (simp add: set_store_sort)
qed

lemma store_find_status:
  assumes "store_find st q sq skip n = Inr ps"
    and "map_of q ''status'' = Some (Cond (Eq (Str s)))"
    and "p \<in> set ps"
  shows "status p = s"
proof -
  from store_find_matches [OF assms(1)] assms(3) have "matches st q p" by blast
  then show ?thesis using assms(2) by (rule matches_status)
qed

lemma store_find_window:
  assumes "request_ok st ps"
  shows "store_find st (build_query ps) (sort_query_of (sortBy_of ps)) 0 (limit_of ps * 5)
       = Inr (take (nat (limit_of ps * 5))
                (store_sort st (build_query ps) (sort_query_of (sortBy_of ps)) (satisfying st ps)))"
  using assms
  by (simp add: request_ok_def store_find_def apply_limit_def satisfying_def)


section \<open>Ranking and Pagination Orchestrator: results\<close>

text \<open>
  The response to a request the engine can serve, written out: first in relevance mode,
  then in the two modes that use the order of the store.
\<close>

lemma with_score_plain: "with_score q (plain_hit p) = scored q p"
  by (simp add: with_score_def plain_hit_def scored_def)

lemma with_score_plain_comp: "with_score q \<circ> plain_hit = scored q"
  by (rule ext) (simp add: with_score_plain)

lemma without_distance_with_distance:
  "without_distance (with_distance a b h) = without_distance h"
  by (simp add: without_distance_def with_distance_def)

lemma without_distance_scored: "without_distance (scored q p) = scored q p"
  by (simp add: without_distance_def scored_def)

lemma score_of_with_distance: "score_of (with_distance a b h) = score_of h"
  by (simp add: score_of_def with_distance_def)

lemma relevanceScore_with_distance: "relevanceScore (with_distance a b h) = relevanceScore h"
  by (simp add: with_distance_def)

lemma hit_post_simps:
  "hit_post (plain_hit p) = p"
  "hit_post (with_score q h) = hit_post h"
  "hit_post (with_distance a b h) = hit_post h"
  by (simp_all add: plain_hit_def with_score_def with_distance_def)

lemma advancedSearch_relevance_eq:
  assumes ok: "request_ok st ps" and rm: "relevance_mode ps"
  shows "advancedSearch st ps =
     Inr \<lparr>r_posts =
            (if has_geocenter ps
             then map (with_distance (or_default (p_latitude ps) 0) (or_default (p_longitude ps) 0))
             else (\<lambda>hs. hs))
              (take (nat (limit_of ps))
                 (drop (nat ((page_of ps - 1) * limit_of ps))
                    (Array_sort (\<lambda>a b. score_of b - score_of a)
                       (map (scored (searchText_of ps))
                          (take (nat (limit_of ps * 5))
                             (store_sort st (build_query ps) (sort_query_of (sortBy_of ps))
                                (satisfying st ps))))))),
           r_pagination =
             \<lparr>pg_current = page_of ps,
              pg_total = Math_ceil_div (length (satisfying st ps)) (limit_of ps),
              pg_count = length (take (nat (limit_of ps * 5))
                             (store_sort st (build_query ps) (sort_query_of (sortBy_of ps))
                                (satisfying st ps))),
              pg_totalCount = length (satisfying st ps),
              pg_limit = limit_of ps\<rparr>,
           r_hasGeospatialFilter = has_geocenter ps,
           r_searchCenter =
             (if has_geocenter ps
              then Some (or_default (p_latitude ps) 0, or_default (p_longitude ps) 0,
                         or_default (p_radius ps) 5000)
              else None)\<rparr>"
proof -
  from ok have p: "1 \<le> page_of ps" and n: "1 \<le> limit_of ps"
    and rx: "regexp_ok st (searchText_of ps)" and acc: "accepts st (build_query ps)"
    using rm by (simp_all add: request_ok_def relevance_mode_def)
  have sk: "0 \<le> (page_of ps - 1) * limit_of ps"
    using p n by simp
  have n0: "0 \<le> limit_of ps" "limit_of ps \<noteq> 0"
    using n by simp_all
  from rm have tx: "truthy_str (p_searchText ps)" and sb: "or_default (p_sortBy ps) ''newest'' \<noteq> ''distance''"
    by (simp_all add: relevance_mode_def has_text_def sortBy_of_def)
  show ?thesis
    unfolding advancedSearch_def Let_def store_find_def countDocuments_def
    using tx sb rx acc n0 sk
    by (simp add: apply_limit_def Array_slice_page with_score_plain_comp has_geocenter_def
          satisfying_def page_of_def limit_of_def sortBy_of_def searchText_of_def)
qed

lemma advancedSearch_direct_eq:
  assumes ok: "request_ok st ps" and rm: "\<not> relevance_mode ps"
  shows "advancedSearch st ps =
     Inr \<lparr>r_posts =
            (if has_geocenter ps
             then map (with_distance (or_default (p_latitude ps) 0) (or_default (p_longitude ps) 0))
             else (\<lambda>hs. hs))
              ((if has_text ps then map (scored (searchText_of ps)) else map plain_hit)
                 (take (nat (limit_of ps))
                    (drop (nat ((page_of ps - 1) * limit_of ps))
                       (store_sort st (build_query ps) (sort_query_of (sortBy_of ps))
                          (satisfying st ps))))),
           r_pagination =
             \<lparr>pg_current = page_of ps,
              pg_total = Math_ceil_div (length (satisfying st ps)) (limit_of ps),
              pg_count = length (take (nat (limit_of ps))
                    (drop (nat ((page_of ps - 1) * limit_of ps))
                       (store_sort st (build_query ps) (sort_query_of (sortBy_of ps))
                          (satisfying st ps)))),
              pg_totalCount = length (satisfying st ps),
              pg_limit = limit_of ps\<rparr>,
           r_hasGeospatialFilter = has_geocenter ps,
           r_searchCenter =
             (if has_geocenter ps
              then Some (or_default (p_latitude ps) 0, or_default (p_longitude ps) 0,
                         or_default (p_radius ps) 5000)
              else None)\<rparr>"
proof -
  from ok have p: "1 \<le> page_of ps" and n: "1 \<le> limit_of ps"
    and rx: "has_text ps \<Longrightarrow> regexp_ok st (searchText_of ps)" and acc: "accepts st (build_query ps)"
    by (simp_all add: request_ok_def)
  have "0 \<le> (page_of ps - 1) * limit_of ps"
    using p n by simp
  then have sk: "0 \<le> (page_of ps - 1) * limit_of ps" "\<not> (page_of ps - 1) * limit_of ps < 0"
    by simp_all
  have n0: "0 \<le> limit_of ps" "limit_of ps \<noteq> 0" "\<bar>limit_of ps\<bar> = limit_of ps"
    using n by simp_all
  from rm have sb: "has_text ps \<Longrightarrow> or_default (p_sortBy ps) ''newest'' = ''distance''"
    by (simp add: relevance_mode_def sortBy_of_def)
  show ?thesis
  proof (cases "has_text ps")
    case True
    with sb rx show ?thesis
      unfolding advancedSearch_def Let_def store_find_def countDocuments_def
      using acc n0 sk
      by (simp add: apply_limit_def with_score_plain_comp has_geocenter_def has_text_def
          satisfying_def page_of_def limit_of_def sortBy_of_def searchText_of_def)
  next
    case False
    then show ?thesis
      unfolding advancedSearch_def Let_def store_find_def countDocuments_def
      using acc n0 sk
      by (simp add: apply_limit_def has_geocenter_def has_text_def
          satisfying_def page_of_def limit_of_def sortBy_of_def searchText_of_def)
  qed
qed

lemma advancedSearch_refused:
  assumes "\<not> accepts st (build_query ps)"
    and "if has_text ps then regexp_ok st (searchText_of ps) else True"
  shows "advancedSearch st ps = Inl StoreError"
  using assms
  unfolding advancedSearch_def Let_def store_find_def
  by (simp add: has_text_def searchText_of_def split: if_splits)

lemma ceil_div_bounds:
  assumes "1 \<le> (n::int)"
  shows "int m \<le> Math_ceil_div m n * n \<and> (Math_ceil_div m n - 1) * n < int m"
proof -
  have pos: "0 < real_of_int n" using assms by simp
  have "real m \<le> of_int \<lceil>real m / real_of_int n\<rceil> * real_of_int n"
    using pos by (rule ceiling_divide_upper)
  then have "real_of_int (int m) \<le> real_of_int (Math_ceil_div m n * n)"
    by (simp add: Math_ceil_div_def)
  then have up: "int m \<le> Math_ceil_div m n * n"
    by (simp only: of_int_le_iff)
  have "(of_int \<lceil>real m / real_of_int n\<rceil> - 1) * real_of_int n < real m"
    using pos by (rule ceiling_divide_lower)
  then have "real_of_int ((Math_ceil_div m n - 1) * n) < real_of_int (int m)"
    by (simp add: Math_ceil_div_def)
  then have lo: "(Math_ceil_div m n - 1) * n < int m"
    by (simp only: of_int_less_iff)
  from up lo show ?thesis by blast
qed


text \<open>
  Whatever the request, an entry of the response is a document the store returned for the
  query of the request, and that query demands an approved listing.
\<close>

lemma advancedSearch_posts_from_store:
  assumes "advancedSearch st ps = Inr r" and "h \<in> set (r_posts r)"
  shows "\<exists>sq skip n found. store_find st (build_query ps) sq skip n = Inr found
            \<and> hit_post h \<in> set found"
proof -
  define sq where "sq = sort_query_of (or_default (p_sortBy ps) ''newest'')"
  define useRel where "useRel = (truthy_str (p_searchText ps)
      \<and> or_default (p_sortBy ps) ''newest'' \<noteq> ''distance'')"
  define lim where "lim = or_default (p_limit ps) 10"
  define skip where "skip = (or_default (p_page ps) 1 - 1) * lim"
  define fl where "fl = (if useRel then lim * 5 else lim)"
  define fs where "fs = (if useRel then 0 else skip)"
  from assms(1) obtain found where
    found: "store_find st (build_query ps) sq fs fl = Inr found"
    unfolding advancedSearch_def Let_def sq_def fs_def fl_def skip_def lim_def useRel_def
    by (auto split: if_splits sum.splits)
  define scoredp where "scoredp = map (with_score (or_default (p_searchText ps) [])) (map plain_hit found)"
  define processed where "processed =
      (if truthy_str (p_searchText ps)
       then (if useRel
             then Array_slice skip (skip + lim) (Array_sort (\<lambda>a b. score_of b - score_of a) scoredp)
             else scoredp)
       else map plain_hit found)"
  have posts: "r_posts r = (if truthy_num (p_latitude ps) \<and> truthy_num (p_longitude ps)
       then map (with_distance (or_default (p_latitude ps) 0) (or_default (p_longitude ps) 0)) processed
       else processed)"
    using assms(1) found
    unfolding advancedSearch_def Let_def sq_def fs_def fl_def skip_def lim_def useRel_def
      processed_def scoredp_def
    by (auto split: if_splits sum.splits)
  have "hit_post ` set scoredp \<subseteq> set found"
    by (auto simp: scoredp_def hit_post_simps)
  moreover have "set (Array_slice skip (skip + lim) (Array_sort (\<lambda>a b. score_of b - score_of a) scoredp))
      \<subseteq> set scoredp"
  proof -
    have "set (Array_slice skip (skip + lim) (Array_sort (\<lambda>a b. score_of b - score_of a) scoredp))
        \<subseteq> set (Array_sort (\<lambda>a b. score_of b - score_of a) scoredp)"
      by (rule set_Array_slice)
    also have "\<dots> = set scoredp"
      by (simp add: Array_sort_sort_key)
    finally show ?thesis .
  qed
  ultimately have "hit_post ` set processed \<subseteq> set found"
    unfolding processed_def by (auto simp: hit_post_simps)
  with posts assms(2) have "hit_post h \<in> set found"
    by (auto simp: hit_post_simps split: if_splits)
  with found show ?thesis by blast
qed

lemma advancedSearch_only_approved:
  assumes "advancedSearch st ps = Inr r" and "h \<in> set (r_posts r)"
  shows "status (hit_post h) = ''approved''"
proof -
  from advancedSearch_posts_from_store [OF assms]
  obtain sq skip n found where found: "store_find st (build_query ps) sq skip n = Inr found"
    and mem: "hit_post h \<in> set found" by blast
  from found build_query_status mem show ?thesis
    by (rule store_find_status)
qed

lemma findNearbyPosts_only_approved:
  assumes "''status'' \<notin> fst ` set filt"
    and "findNearbyPosts st la lo rad filt skip n = Inr found" and "p \<in> set found"
  shows "status p = ''approved''"
proof -
  have "map_of (assign [(''status'', Cond (Eq (Str ''approved''))),
                        (''location.coordinates'', Cond (Near lo la rad))] filt) ''status''
      = Some (Cond (Eq (Str ''approved'')))"
    using assms(1) by (simp add: map_of_assign_other)
  with assms(2,3) show ?thesis
    unfolding findNearbyPosts_def Let_def by (auto dest: store_find_status)
qed

lemma findWithAdvancedFilter_only_approved:
  assumes "''status'' \<notin> fst ` set filt"
    and "findWithAdvancedFilter st filt sq skip n = Inr (found, cnt)" and "p \<in> set found"
  shows "status p = ''approved''"
proof -
  have "map_of (assign [(''status'', Cond (Eq (Str ''approved'')))] filt) ''status''
      = Some (Cond (Eq (Str ''approved'')))"
    using assms(1) by (simp add: map_of_assign_other)
  moreover from assms(2) have "store_find st (assign [(''status'', Cond (Eq (Str ''approved'')))] filt) sq skip n = Inr found"
    unfolding findWithAdvancedFilter_def Let_def by (auto split: sum.splits)
  ultimately show ?thesis
    using assms(3) by (auto dest: store_find_status)
qed


text \<open>
  An entry carries a distance exactly when latitude and longitude are both truthy, and a
  relevance score exactly when the free text is.
\<close>

lemma annotations_follow_truthiness:
  assumes "request_ok st ps"
  shows "\<exists>r. advancedSearch st ps = Inr r
       \<and> (\<forall>h \<in> set (r_posts r).
             (distance h \<noteq> None) = has_geocenter ps
           \<and> (relevanceScore h \<noteq> None) = has_text ps)"
proof (cases "relevance_mode ps")
  case True
  then have t: "has_text ps" by (simp add: relevance_mode_def)
  have "set (Array_sort (\<lambda>a b. score_of b - score_of a) xs) = set xs" for xs :: "hit list"
    by (simp add: Array_sort_sort_key)
  then have "\<forall>h \<in> set (take a (drop b (Array_sort (\<lambda>a b. score_of b - score_of a)
       (map (scored q) w)))). distance h = None \<and> relevanceScore h \<noteq> None" for a b q w
    by (auto simp: scored_def dest!: in_set_takeD in_set_dropD)
  then show ?thesis
    unfolding advancedSearch_relevance_eq [OF assms True] using t
    by (auto simp: with_distance_def)
next
  case False
  have "\<forall>h \<in> set ((if has_text ps then map (scored q) else map plain_hit) w).
      distance h = None \<and> (relevanceScore h \<noteq> None) = has_text ps" for q w
    by (auto simp: scored_def plain_hit_def)
  then show ?thesis
    unfolding advancedSearch_direct_eq [OF assms False]
    by (auto simp: with_distance_def)
qed


section \<open>Pagination: results\<close>

text \<open>
  C2. For every request the engine can serve, the total of the pagination block is the
  number of approved documents of the store that satisfy the predicate of the request,
  counted over the whole store and not over the fetched window; the predicate, and with it
  the total, does not depend on the page, the page size or the sort key; and the page count
  is the total divided by the page size, rounded up: the least number of pages of that size
  that hold all matches.
\<close>

theorem pagination_counts_every_match:
  assumes "request_ok st ps"
  shows "\<exists>r. advancedSearch st ps = Inr r
       \<and> pg_totalCount (r_pagination r)
           = length (filter (\<lambda>p. status p = ''approved'' \<and> matches st (build_query ps) p) (docs st))
       \<and> build_query (ps\<lparr>p_page := pg, p_limit := lm, p_sortBy := sb\<rparr>) = build_query ps
       \<and> pg_total (r_pagination r)
           = \<lceil>real (pg_totalCount (r_pagination r)) / real_of_int (limit_of ps)\<rceil>
       \<and> int (pg_totalCount (r_pagination r)) \<le> pg_total (r_pagination r) * limit_of ps
       \<and> (pg_total (r_pagination r) - 1) * limit_of ps < int (pg_totalCount (r_pagination r))"
proof -
  from assms have n: "1 \<le> limit_of ps" by (simp add: request_ok_def)
  obtain r where r: "advancedSearch st ps = Inr r"
    and tc: "pg_totalCount (r_pagination r) = length (satisfying st ps)"
    and tp: "pg_total (r_pagination r) = Math_ceil_div (length (satisfying st ps)) (limit_of ps)"
  proof (cases "relevance_mode ps")
    case True
    from advancedSearch_relevance_eq [OF assms True] that show ?thesis by simp
  next
    case False
    from advancedSearch_direct_eq [OF assms False] that show ?thesis by simp
  qed
  have cnt: "length (satisfying st ps)
      = length (filter (\<lambda>p. status p = ''approved'' \<and> matches st (build_query ps) p) (docs st))"
    by (simp only: satisfying_as_count [symmetric])
  from ceil_div_bounds [OF n, of "length (satisfying st ps)"] r tc tp cnt show ?thesis
    by (simp add: build_query_ignores_paging Math_ceil_div_def)
qed

theorem pagination_counts_every_match_witness:
  "request_ok listed land_by_price
   \<and> (\<exists>r. advancedSearch listed land_by_price = Inr r
          \<and> pg_totalCount (r_pagination r) = 2
          \<and> pg_total (r_pagination r) = 2
          \<and> length (r_posts r) = 1)"
proof -
  have ok: "request_ok listed land_by_price" by code_simp
  have nr: "\<not> relevance_mode land_by_price" by code_simp
  have cnt: "length (filter (\<lambda>p. status p = ''approved''
                \<and> matches listed (build_query land_by_price) p) (docs listed)) = 2"
    by code_simp
  have n: "limit_of land_by_price = 1" by code_simp
  have page: "length (take (nat (limit_of land_by_price))
                 (drop (nat ((page_of land_by_price - 1) * limit_of land_by_price))
                    (store_sort listed (build_query land_by_price)
                       (sort_query_of (sortBy_of land_by_price))
                       (satisfying listed land_by_price)))) = 1"
    by code_simp
  from pagination_counts_every_match [OF ok]
  obtain r where r: "advancedSearch listed land_by_price = Inr r"
    and tc: "pg_totalCount (r_pagination r)
       = length (filter (\<lambda>p. status p = ''approved''
                \<and> matches listed (build_query land_by_price) p) (docs listed))"
    and tp: "pg_total (r_pagination r)
       = \<lceil>real (pg_totalCount (r_pagination r)) / real_of_int (limit_of land_by_price)\<rceil>"
    by blast
  from tc cnt have two: "pg_totalCount (r_pagination r) = 2" by simp
  with tp n have pages: "pg_total (r_pagination r) = 2" by simp
  from r page have "length (r_posts r) = 1"
    unfolding advancedSearch_direct_eq [OF ok nr] by (auto split: if_splits)
  with ok r two pages show ?thesis by blast
qed

text \<open>
  C10. In relevance mode, a request for page 6 or beyond gets an empty result array,
  however many documents match: the window holds at most 5 pages' worth of candidates from
  offset zero and the slice of the requested page starts past its end. The total and the
  page count of the pagination block are those of the full set of matches all the same.
\<close>

theorem pages_past_window_are_empty:
  assumes "request_ok st ps" and "relevance_mode ps" and "6 \<le> page_of ps"
  shows "\<exists>r. advancedSearch st ps = Inr r
       \<and> r_posts r = []
       \<and> pg_totalCount (r_pagination r) = length (satisfying st ps)
       \<and> pg_total (r_pagination r)
           = \<lceil>real (length (satisfying st ps)) / real_of_int (limit_of ps)\<rceil>"
proof -
  from assms(1) have n: "1 \<le> limit_of ps" by (simp add: request_ok_def)
  have "limit_of ps * 5 \<le> (page_of ps - 1) * limit_of ps"
  proof -
    have "5 * limit_of ps \<le> (page_of ps - 1) * limit_of ps"
      using assms(3) n by (intro mult_right_mono) simp_all
    then show ?thesis by (simp add: mult.commute)
  qed
  then have far: "nat (limit_of ps * 5) \<le> nat ((page_of ps - 1) * limit_of ps)"
    by simp
  have "drop (nat ((page_of ps - 1) * limit_of ps))
          (Array_sort (\<lambda>a b. score_of b - score_of a)
             (map (scored (searchText_of ps))
                (take (nat (limit_of ps * 5))
                   (store_sort st (build_query ps) (sort_query_of (sortBy_of ps))
                      (satisfying st ps))))) = []"
    using far by (simp add: Array_sort_sort_key)
  with advancedSearch_relevance_eq [OF assms(1,2)] show ?thesis
    by (simp add: Math_ceil_div_def)
qed

theorem pages_past_window_are_empty_witness:
  "request_ok listed market_page_six \<and> relevance_mode market_page_six
   \<and> 6 \<le> page_of market_page_six
   \<and> (\<exists>r. advancedSearch listed market_page_six = Inr r
          \<and> r_posts r = []
          \<and> pg_totalCount (r_pagination r) = 2
          \<and> pg_total (r_pagination r) = 2)"
proof -
  have ok: "request_ok listed market_page_six" by code_simp
  have rm: "relevance_mode market_page_six" by code_simp
  have six: "6 \<le> page_of market_page_six" by code_simp
  have cnt: "length (satisfying listed market_page_six) = 2" by code_simp
  have n: "limit_of market_page_six = 1" by code_simp
  from pages_past_window_are_empty [OF ok rm six] cnt n
  have "\<exists>r. advancedSearch listed market_page_six = Inr r
          \<and> r_posts r = []
          \<and> pg_totalCount (r_pagination r) = 2
          \<and> pg_total (r_pagination r) = 2"
    by simp
  with ok rm six show ?thesis by blast
qed


section \<open>Relevance mode: results\<close>

text \<open>
  C3. In relevance mode (free text present, sort key other than the distance), with page
  \<open>p\<close> and page size \<open>n\<close>: the engine fetches a window from offset zero with limit
  \<open>5 n\<close> under the sort of the store, so the window has at most \<open>5 n\<close> documents; it
  attaches the relevance score to every document of the window; it sorts the scored window
  in descending order of score, entries of equal score in the order of the fetch; and the
  result array is the slice of that sorted window from \<open>(p - 1) n\<close>, \<open>n\<close> entries long
  (up to the distance each entry may carry in addition).
\<close>

theorem relevance_window_sorted_and_sliced:
  assumes "request_ok st ps" and "relevance_mode ps"
  shows "\<exists>r window.
           advancedSearch st ps = Inr r
         \<and> store_find st (build_query ps) (sort_query_of (sortBy_of ps)) 0 (limit_of ps * 5)
             = Inr window
         \<and> length window \<le> nat (5 * limit_of ps)
         \<and> mset (ranked (searchText_of ps) window) = mset (map (scored (searchText_of ps)) window)
         \<and> sorted_wrt (\<lambda>a b. score_of b \<le> score_of a) (ranked (searchText_of ps) window)
         \<and> (\<forall>k. filter (\<lambda>h. score_of h = k) (ranked (searchText_of ps) window)
                  = filter (\<lambda>h. score_of h = k) (map (scored (searchText_of ps)) window))
         \<and> map without_distance (r_posts r)
             = take (nat (limit_of ps))
                 (drop (nat ((page_of ps - 1) * limit_of ps)) (ranked (searchText_of ps) window))"
proof -
  define window where "window = take (nat (limit_of ps * 5))
      (store_sort st (build_query ps) (sort_query_of (sortBy_of ps)) (satisfying st ps))"
  define sorted_window where "sorted_window = ranked (searchText_of ps) window"
  define page_slice where "page_slice = take (nat (limit_of ps))
      (drop (nat ((page_of ps - 1) * limit_of ps)) sorted_window)"
  have fetch: "store_find st (build_query ps) (sort_query_of (sortBy_of ps)) 0 (limit_of ps * 5)
      = Inr window"
    unfolding window_def using assms(1) by (rule store_find_window)
  have len: "length window \<le> nat (5 * limit_of ps)"
    by (simp add: window_def mult.commute)
  have perm: "mset sorted_window = mset (map (scored (searchText_of ps)) window)"
    unfolding sorted_window_def ranked_def by (rule Array_sort_mset)
  have desc: "sorted_wrt (\<lambda>a b. score_of b \<le> score_of a) sorted_window"
    unfolding sorted_window_def ranked_def by (rule Array_sort_descending)
  have stable: "\<forall>k. filter (\<lambda>h. score_of h = k) sorted_window
      = filter (\<lambda>h. score_of h = k) (map (scored (searchText_of ps)) window)"
    unfolding sorted_window_def ranked_def by (simp add: Array_sort_stable)
  have "set sorted_window = set (map (scored (searchText_of ps)) window)"
    using perm by (rule mset_eq_setD)
  then have "\<forall>h \<in> set sorted_window. without_distance h = h"
    by (auto simp: without_distance_scored)
  then have "\<forall>h \<in> set page_slice. without_distance h = h"
    unfolding page_slice_def by (meson in_set_dropD in_set_takeD)
  then have plain: "map without_distance page_slice = page_slice"
    by (simp add: map_idI)
  obtain r where r: "advancedSearch st ps = Inr r"
    and posts: "r_posts r = (if has_geocenter ps
             then map (with_distance (or_default (p_latitude ps) 0) (or_default (p_longitude ps) 0))
             else (\<lambda>hs. hs)) page_slice"
    using advancedSearch_relevance_eq [OF assms]
    unfolding page_slice_def sorted_window_def ranked_def window_def by simp
  from posts plain have "map without_distance (r_posts r) = page_slice"
    by (simp add: without_distance_with_distance comp_def)
  with r fetch len perm desc stable show ?thesis
    unfolding page_slice_def sorted_window_def by blast
qed

theorem relevance_window_sorted_and_sliced_witness:
  "request_ok listed market_request \<and> relevance_mode market_request
   \<and> (\<exists>r. advancedSearch listed market_request = Inr r
          \<and> map without_distance (r_posts r)
              = [scored ''market'' title_match, scored ''market'' description_match])"
proof -
  have ok: "request_ok listed market_request" by code_simp
  have rm: "relevance_mode market_request" by code_simp
  have fetch: "store_find listed (build_query market_request)
                 (sort_query_of (sortBy_of market_request)) 0 (limit_of market_request * 5)
               = Inr [description_match, title_match]"
    by code_simp
  have slice: "take (nat (limit_of market_request))
                 (drop (nat ((page_of market_request - 1) * limit_of market_request))
                    (ranked (searchText_of market_request) [description_match, title_match]))
               = [scored ''market'' title_match, scored ''market'' description_match]"
    by code_simp
  from relevance_window_sorted_and_sliced [OF ok rm]
  obtain r window where r: "advancedSearch listed market_request = Inr r"
    and w: "store_find listed (build_query market_request)
              (sort_query_of (sortBy_of market_request)) 0 (limit_of market_request * 5)
            = Inr window"
    and p: "map without_distance (r_posts r)
            = take (nat (limit_of market_request))
                (drop (nat ((page_of market_request - 1) * limit_of market_request))
                   (ranked (searchText_of market_request) window))"
    by blast
  from w fetch have "window = [description_match, title_match]" by simp
  with p slice have "map without_distance (r_posts r)
      = [scored ''market'' title_match, scored ''market'' description_match]"
    by simp
  with r have "\<exists>r. advancedSearch listed market_request = Inr r
          \<and> map without_distance (r_posts r)
              = [scored ''market'' title_match, scored ''market'' description_match]"
    by (intro exI [of _ r] conjI)
  with ok rm show ?thesis by (intro conjI)
qed


lemma hit_post_scored: "hit_post (scored q p) = p"
  by (simp add: scored_def)

lemma relevanceScore_scored: "relevanceScore (scored q p) = Some (calculateRelevanceScore p q)"
  by (simp add: scored_def)

text \<open>
  C4, as amended. For every request with a non-empty free text whose sort key is not the
  distance, every entry of the result array carries a relevance score, the score of its
  listing for the free text, and the scores are non-increasing in array order.
\<close>

theorem relevance_scores_non_increasing:
  assumes "request_ok st ps" and "relevance_mode ps"
  shows "\<exists>r. advancedSearch st ps = Inr r
       \<and> (\<forall>h \<in> set (r_posts r).
             relevanceScore h = Some (calculateRelevanceScore (hit_post h) (searchText_of ps)))
       \<and> (\<forall>i j. i < j \<and> j < length (r_posts r) \<longrightarrow>
             score_of (r_posts r ! j) \<le> score_of (r_posts r ! i))"
proof -
  define sorted_window where "sorted_window = Array_sort (\<lambda>a b. score_of b - score_of a)
      (map (scored (searchText_of ps)) (take (nat (limit_of ps * 5))
      (store_sort st (build_query ps) (sort_query_of (sortBy_of ps)) (satisfying st ps))))"
  define page_slice where "page_slice = take (nat (limit_of ps))
      (drop (nat ((page_of ps - 1) * limit_of ps)) sorted_window)"
  obtain r where r: "advancedSearch st ps = Inr r"
    and posts: "r_posts r = (if has_geocenter ps
             then map (with_distance (or_default (p_latitude ps) 0) (or_default (p_longitude ps) 0))
             else (\<lambda>hs. hs)) page_slice"
    using advancedSearch_relevance_eq [OF assms]
    unfolding page_slice_def sorted_window_def by simp
  have "sorted_wrt (\<lambda>a b. score_of b \<le> score_of a) sorted_window"
    unfolding sorted_window_def by (rule Array_sort_descending)
  then have "sorted_wrt (\<lambda>a b. score_of b \<le> score_of a) page_slice"
    unfolding page_slice_def by (intro sorted_wrt_take sorted_wrt_drop)
  then have desc: "sorted_wrt (\<lambda>a b. score_of b \<le> score_of a) (r_posts r)"
    by (simp add: posts sorted_wrt_map score_of_with_distance)
  have "set sorted_window = set (map (scored (searchText_of ps)) (take (nat (limit_of ps * 5))
      (store_sort st (build_query ps) (sort_query_of (sortBy_of ps)) (satisfying st ps))))"
    unfolding sorted_window_def by (intro mset_eq_setD Array_sort_mset)
  then have "\<forall>h \<in> set sorted_window.
      relevanceScore h = Some (calculateRelevanceScore (hit_post h) (searchText_of ps))"
    by (auto simp: hit_post_scored relevanceScore_scored)
  then have "\<forall>h \<in> set page_slice.
      relevanceScore h = Some (calculateRelevanceScore (hit_post h) (searchText_of ps))"
    unfolding page_slice_def by (meson in_set_dropD in_set_takeD)
  then have present: "\<forall>h \<in> set (r_posts r).
      relevanceScore h = Some (calculateRelevanceScore (hit_post h) (searchText_of ps))"
    by (auto simp: posts relevanceScore_with_distance hit_post_simps)
  have order: "score_of (r_posts r ! j) \<le> score_of (r_posts r ! i)"
    if "i < j \<and> j < length (r_posts r)" for i j
  proof -
    from that have ij: "i < j" "j < length (r_posts r)" by simp_all
    from sorted_wrt_nth_less [OF desc ij] show ?thesis .
  qed
  from r present order show ?thesis by blast
qed

theorem relevance_scores_non_increasing_witness:
  "request_ok listed market_request \<and> relevance_mode market_request
   \<and> (\<exists>r. advancedSearch listed market_request = Inr r
          \<and> map relevanceScore (r_posts r) = [Some 10, Some 3]
          \<and> relevanceScore (r_posts r ! 0)
              = Some (calculateRelevanceScore (hit_post (r_posts r ! 0)) ''market'')
          \<and> score_of (r_posts r ! 1) \<le> score_of (r_posts r ! 0))"
proof -
  have ok: "request_ok listed market_request" by code_simp
  have rm: "relevance_mode market_request" by code_simp
  have ng: "\<not> has_geocenter market_request" by code_simp
  have q: "searchText_of market_request = ''market''" by code_simp
  have ev: "map relevanceScore
              (take (nat (limit_of market_request))
                 (drop (nat ((page_of market_request - 1) * limit_of market_request))
                    (Array_sort (\<lambda>a b. score_of b - score_of a)
                       (map (scored (searchText_of market_request))
                          (take (nat (limit_of market_request * 5))
                             (store_sort listed (build_query market_request)
                                (sort_query_of (sortBy_of market_request))
                                (satisfying listed market_request)))))))
            = [Some 10, Some 3]"
    by code_simp
  from relevance_scores_non_increasing [OF ok rm]
  obtain r where r: "advancedSearch listed market_request = Inr r"
    and present: "\<forall>h \<in> set (r_posts r).
             relevanceScore h = Some (calculateRelevanceScore (hit_post h) (searchText_of market_request))"
    and mono: "\<forall>i j. i < j \<and> j < length (r_posts r) \<longrightarrow>
             score_of (r_posts r ! j) \<le> score_of (r_posts r ! i)"
    by blast
  from r ev ng have scores: "map relevanceScore (r_posts r) = [Some 10, Some 3]"
    unfolding advancedSearch_relevance_eq [OF ok rm] by auto
  then have "length (map relevanceScore (r_posts r)) = 2" by simp
  then have len: "(0::nat) < 1 \<and> 1 < length (r_posts r)" and first: "0 < length (r_posts r)"
    by simp_all
  from len mono have le: "score_of (r_posts r ! 1) \<le> score_of (r_posts r ! 0)" by blast
  from first have "r_posts r ! 0 \<in> set (r_posts r)" by (rule nth_mem)
  with present q have sc: "relevanceScore (r_posts r ! 0)
      = Some (calculateRelevanceScore (hit_post (r_posts r ! 0)) ''market'')"
    by simp
  from r scores sc le have "\<exists>r. advancedSearch listed market_request = Inr r
          \<and> map relevanceScore (r_posts r) = [Some 10, Some 3]
          \<and> relevanceScore (r_posts r ! 0)
              = Some (calculateRelevanceScore (hit_post (r_posts r ! 0)) ''market'')
          \<and> score_of (r_posts r ! 1) \<le> score_of (r_posts r ! 0)"
    by (intro exI [of _ r] conjI)
  with ok rm show ?thesis by (intro conjI)
qed

text \<open>
  The claim as first stated includes the sort key \<open>distance\<close>. With that key the engine
  scores the entries and leaves them in the order of the store: for the free text "market"
  the listing that matches in its description comes first with score 3, the listing that
  matches in its title second with score 10.
\<close>

theorem distance_order_counterexample:
  "p_searchText market_by_distance = Some ''market''
   \<and> p_sortBy market_by_distance = Some ''distance''
   \<and> map_sum id (map relevanceScore \<circ> r_posts) (advancedSearch listed market_by_distance)
       = Inr [Some 3, Some 10]
   \<and> \<not> ((10::real) \<le> 3)"
proof -
  have ok: "request_ok listed market_by_distance" by code_simp
  have nr: "\<not> relevance_mode market_by_distance" by code_simp
  have ng: "\<not> has_geocenter market_by_distance" by code_simp
  have nt: "has_text market_by_distance" by code_simp
  have ev: "map relevanceScore (map (scored (searchText_of market_by_distance))
                 (take (nat (limit_of market_by_distance))
                    (drop (nat ((page_of market_by_distance - 1) * limit_of market_by_distance))
                       (store_sort listed (build_query market_by_distance)
                          (sort_query_of (sortBy_of market_by_distance))
                          (satisfying listed market_by_distance))))) = [Some 3, Some 10]"
    by code_simp
  have "p_searchText market_by_distance = Some ''market''
      \<and> p_sortBy market_by_distance = Some ''distance''" by code_simp
  with ev show ?thesis
    unfolding advancedSearch_direct_eq [OF ok nr] using ng nt by simp
qed


section \<open>Approved listings only: results\<close>

text \<open>
  C1. The claim is that no search operation ever returns a listing that is not approved,
  whatever filter the caller supplies. \<open>advancedSearch\<close> keeps it for every request
  (\<open>advancedSearch_only_approved\<close>), and so do \<open>findNearbyPosts\<close> and
  \<open>findWithAdvancedFilter\<close> for a filter without the key \<open>status\<close>
  (\<open>findNearbyPosts_only_approved\<close>, \<open>findWithAdvancedFilter_only_approved\<close>). But
  these two spread the caller's filter over their own \<open>status: "approved"\<close>, so a filter
  with a status of its own replaces it: asked for pending listings, both return the
  listing that awaits approval.
\<close>

theorem caller_filter_replaces_status:
  "findNearbyPosts listed 18 102 5000 pending_filter 0 10 = Inr [pending_listing]
   \<and> findWithAdvancedFilter listed pending_filter (Some (''createdAt'', - 1)) 0 10
       = Inr ([pending_listing], 1)
   \<and> status pending_listing = ''pending''"
  by code_simp


section \<open>Annotations: results\<close>

text \<open>
  C8. The claim is that every entry carries a distance exactly when the request supplies
  a geocenter, whatever its in-range value, and a relevance score exactly when it supplies
  free text. The engine tests \<open>latitude && longitude\<close>, which is false for the number
  0 (\<open>annotations_follow_truthiness\<close>): a request centred on the equator, latitude 0
  and longitude 102, gets no proximity condition in its query and no distance on its
  entries.
\<close>

theorem equator_geocenter_ignored:
  "p_latitude on_the_equator = Some 0 \<and> p_longitude on_the_equator = Some 102
   \<and> near_of (build_query on_the_equator) = None
   \<and> map_sum id (map distance \<circ> r_posts) (advancedSearch listed on_the_equator)
       = Inr [None, None]"
proof -
  have ok: "request_ok listed on_the_equator" by code_simp
  have nr: "\<not> relevance_mode on_the_equator" by code_simp
  have ng: "\<not> has_geocenter on_the_equator" by code_simp
  have nt: "\<not> has_text on_the_equator" by code_simp
  have ev: "map distance (map plain_hit
                 (take (nat (limit_of on_the_equator))
                    (drop (nat ((page_of on_the_equator - 1) * limit_of on_the_equator))
                       (store_sort listed (build_query on_the_equator)
                          (sort_query_of (sortBy_of on_the_equator))
                          (satisfying listed on_the_equator))))) = [None, None]"
    by code_simp
  have "p_latitude on_the_equator = Some 0 \<and> p_longitude on_the_equator = Some 102
   \<and> near_of (build_query on_the_equator) = None" by code_simp
  with ev show ?thesis
    unfolding advancedSearch_direct_eq [OF ok nr] using ng nt by simp
qed


section \<open>The HTTP layer: results\<close>

text \<open>
  The controller \<open>getNearbyPosts\<close> refuses a point off the globe before it calls the
  service; the controller \<open>searchPosts\<close> has no client error among its responses at all.
\<close>

lemma searchPosts_never_rejects: "\<not> rejected (searchPosts st req)"
  by (simp add: searchPosts_def rejected_def split: sum.split)

lemma getNearbyPosts_rejects:
  assumes "truthy_str (param req ''latitude'')" and "truthy_str (param req ''longitude'')"
    and "parseFloat (or_default (param req ''latitude'') []) = Some lt"
    and "parseFloat (or_default (param req ''longitude'') []) = Some lg"
    and "lt < - 90 \<or> 90 < lt \<or> lg < - 180 \<or> 180 < lg"
  shows "getNearbyPosts st req = BadRequest ''Invalid latitude or longitude values''"
  using assms unfolding getNearbyPosts_def Let_def by auto

lemma getNearbyPosts_refuses_off_the_globe:
  "getNearbyPosts st off_the_globe = BadRequest ''Invalid latitude or longitude values''"
proof (rule getNearbyPosts_rejects)
  show "truthy_str (param off_the_globe ''latitude'')" by code_simp
  show "truthy_str (param off_the_globe ''longitude'')" by code_simp
  show "parseFloat (or_default (param off_the_globe ''latitude'') []) = Some 999" by code_simp
  show "parseFloat (or_default (param off_the_globe ''longitude'') []) = Some 102" by code_simp
  show "(999::real) < - 90 \<or> 90 < (999::real) \<or> (102::real) < - 180 \<or> 180 < (102::real)"
    by simp
qed

lemma search_params_off_the_globe:
  "search_params_of off_the_globe
     = empty_params\<lparr>p_latitude := Some 999, p_longitude := Some 102, p_radius := Some 5000,
                    p_page := Some 1, p_limit := Some 10\<rparr>"
  by code_simp

text \<open>
  C7. The claim is that a search request whose geocenter is out of range is rejected with
  a validation error before any store query runs. \<open>getNearbyPosts\<close> does so
  (\<open>getNearbyPosts_refuses_off_the_globe\<close>). \<open>searchPosts\<close> does not: with latitude 999 it
  builds the proximity query and sends it to the store; the store refuses the point and the
  response is the server error, not the client error of a failed validation.
\<close>

theorem search_accepts_point_off_the_globe:
  "param off_the_globe ''latitude'' = Some ''999''
   \<and> p_latitude (search_params_of off_the_globe) = Some 999
   \<and> near_of (build_query (search_params_of off_the_globe)) = Some (102, 999)
   \<and> searchPosts listed off_the_globe = InternalError ''Error searching posts''
   \<and> \<not> rejected (searchPosts listed off_the_globe)"
proof -
  have a: "param off_the_globe ''latitude'' = Some ''999''" by code_simp
  have b: "p_latitude (search_params_of off_the_globe) = Some 999"
    unfolding search_params_off_the_globe by code_simp
  have q: "near_of (build_query (search_params_of off_the_globe)) = Some (102, 999)"
    unfolding search_params_off_the_globe by code_simp
  have "\<not> accepts listed (build_query (search_params_of off_the_globe))"
    unfolding search_params_off_the_globe by code_simp
  moreover have "if has_text (search_params_of off_the_globe)
      then regexp_ok listed (searchText_of (search_params_of off_the_globe)) else True"
    unfolding search_params_off_the_globe by code_simp
  ultimately have "advancedSearch listed (search_params_of off_the_globe) = Inl StoreError"
    by (rule advancedSearch_refused)
  then have c: "searchPosts listed off_the_globe = InternalError ''Error searching posts''"
    by (simp add: searchPosts_def PostService_advancedSearch_def)
  from a b q c show ?thesis by (simp add: rejected_def)
qed

end
